theory Spec2Isabelle
  imports Main "HOL-Library.AList" "HOL-Library.Word"
begin

section \<open>Python values\<close>

text \<open>
  The license data is a Python dictionary with string keys whose values come from string
  literals, from \<^verbatim>\<open>datetime.isoformat()\<close> and from parsed JSON. A dictionary is an
  association list in insertion order; a lookup sees the first binding of a key, and
  \<^const>\<open>AList.update\<close> replaces a binding in place or appends a new one, as assignment to a
  Python dictionary does. JSON numbers with a fraction (Python floats) are not part of
  the value type. A string is a list of characters with code points below 256.

  The field is annotated \<^verbatim>\<open>Dict[str, Any]\<close>, so a value may also be a Python object that no
  JSON parser produces: \<open>JTuple\<close> is a tuple, and \<open>JOther\<close> an object of any other class,
  given by the text that \<^verbatim>\<open>str()\<close> returns for it.
\<close>

datatype json =
    JNull
  | JBool bool
  | JInt int
  | JStr string
  | JList "json list"
  | JDict "(string \<times> json) list"
  | JTuple "json list"
  | JOther string

type_synonym pydict = "(string \<times> json) list"

text \<open>The exceptions that the modelled code can meet.\<close>

datatype exn =
    RequestException
  | ValueError
  | TypeError
  | AttributeError
  | OverflowError
  | FileNotFoundError
  | UnicodeDecodeError
  | ApiError int string

text \<open>\<^verbatim>\<open>d.get(k, default)\<close> on a dictionary.\<close>

definition dict_get :: "pydict \<Rightarrow> string \<Rightarrow> json \<Rightarrow> json" where
  "dict_get d k dflt = (case map_of d k of None \<Rightarrow> dflt | Some v \<Rightarrow> v)"

text \<open>\<^verbatim>\<open>d.update({k1: v1, ...})\<close>: the new bindings are stored one after the other.\<close>

definition dict_update :: "pydict \<Rightarrow> pydict \<Rightarrow> pydict" where
  "dict_update new d = fold (\<lambda>(k, v). AList.update k v) new d"

text \<open>
  \<^verbatim>\<open>data.get(k, default)\<close> on a parsed JSON value: only a JSON object has the method, every
  other value raises AttributeError.
\<close>

fun json_get :: "json \<Rightarrow> string \<Rightarrow> json \<Rightarrow> exn + json" where
  "json_get (JDict d) k dflt = Inr (dict_get d k dflt)"
| "json_get v k dflt = Inl AttributeError"

text \<open>
  Python truth value of a value. An object of another class is taken to be true, as an object
  is unless its class says otherwise.
\<close>

fun truthy :: "json \<Rightarrow> bool" where
  "truthy JNull = False"
| "truthy (JBool b) = b"
| "truthy (JInt i) = (i \<noteq> 0)"
| "truthy (JStr s) = (s \<noteq> [])"
| "truthy (JList xs) = (xs \<noteq> [])"
| "truthy (JDict d) = (d \<noteq> [])"
| "truthy (JTuple xs) = (xs \<noteq> [])"
| "truthy (JOther s) = True"

subsection \<open>JSON documents\<close>

text \<open>
  What a JSON text holds: the document that \<^verbatim>\<open>json.dump\<close> writes and \<^verbatim>\<open>json.load\<close> reads.
  The characters of the text (indentation, escapes, digits) are not modelled: a file is
  taken as the document it holds. Numbers with a fraction are left out, as in the value type.
\<close>

datatype jsondoc =
    DNull
  | DBool bool
  | DNum int
  | DStr string
  | DArr "jsondoc list"
  | DObj "(string \<times> jsondoc) list"

text \<open>
  The document that \<^verbatim>\<open>json.dump(value, f, indent=2, default=str)\<close> writes for a value: a
  tuple is written as an array, like a list, and an object that the encoder does not know is
  passed to \<^verbatim>\<open>default\<close>, here \<^verbatim>\<open>str\<close>, and written as the string that comes back.
\<close>

fun to_json :: "json \<Rightarrow> jsondoc" where
  "to_json JNull = DNull"
| "to_json (JBool b) = DBool b"
| "to_json (JInt i) = DNum i"
| "to_json (JStr s) = DStr s"
| "to_json (JList xs) = DArr (map to_json xs)"
| "to_json (JTuple xs) = DArr (map to_json xs)"
| "to_json (JDict d) = DObj (map (\<lambda>(k, v). (k, to_json v)) d)"
| "to_json (JOther s) = DStr s"

text \<open>
  The value that \<^verbatim>\<open>json.load\<close> builds from a document: an array becomes a list, and an
  object the dictionary of its members, stored one after the other, so that the last of two
  members with the same name wins.
\<close>

fun from_json :: "jsondoc \<Rightarrow> json" where
  "from_json DNull = JNull"
| "from_json (DBool b) = JBool b"
| "from_json (DNum i) = JInt i"
| "from_json (DStr s) = JStr s"
| "from_json (DArr xs) = JList (map from_json xs)"
| "from_json (DObj ms) = JDict (dict_update (map (\<lambda>(k, v). (k, from_json v)) ms) [])"

text \<open>
  The contents of the license file: text that is not JSON, or a JSON object, given by its
  members. The data field is annotated \<^verbatim>\<open>Dict[str, Any]\<close>, and a file that holds a JSON value
  other than an object is not modelled.
\<close>

datatype file_content = NotJson | JsonObject "(string \<times> jsondoc) list"

definition json_dump :: "pydict \<Rightarrow> file_content" where
  "json_dump d = JsonObject (map (\<lambda>(k, v). (k, to_json v)) d)"

text \<open>\<^verbatim>\<open>json.load\<close>; \<open>None\<close> when it raises.\<close>

fun json_load :: "file_content \<Rightarrow> pydict option" where
  "json_load NotJson = None"
| "json_load (JsonObject ms) = Some (dict_update (map (\<lambda>(k, v). (k, from_json v)) ms) [])"




subsection \<open>Dates and times\<close>

text \<open>
  A \<^verbatim>\<open>datetime\<close> is its number of microseconds since 0001-01-01T00:00:00 (wall-clock time),
  naive or timezone-aware. \<^verbatim>\<open>datetime.now()\<close> is always naive. Python keeps a datetime within
  the years 1 to 9999 and the days of a \<^verbatim>\<open>timedelta\<close> within 999999999 in magnitude, and
  raises OverflowError beyond; comparing or subtracting an aware and a naive datetime raises
  TypeError.
\<close>

datatype pydatetime = Naive int | Aware int

definition us_per_day :: int where
  "us_per_day = 86400000000"

definition datetime_end :: int where
  "datetime_end = 3652059 * us_per_day"

text \<open>\<^verbatim>\<open>timedelta(days=d)\<close>, in microseconds.\<close>

definition timedelta_days :: "int \<Rightarrow> exn + int" where
  "timedelta_days d = (if \<bar>d\<bar> > 999999999 then Inl OverflowError else Inr (d * us_per_day))"

text \<open>\<^verbatim>\<open>dt + delta\<close>.\<close>

fun dt_add :: "pydatetime \<Rightarrow> int \<Rightarrow> exn + pydatetime" where
  "dt_add (Naive t) delta =
     (if 0 \<le> t + delta \<and> t + delta < datetime_end then Inr (Naive (t + delta)) else Inl OverflowError)"
| "dt_add (Aware t) delta =
     (if 0 \<le> t + delta \<and> t + delta < datetime_end then Inr (Aware (t + delta)) else Inl OverflowError)"

text \<open>\<^verbatim>\<open>dt - datetime.now()\<close>, a timedelta in microseconds.\<close>

fun dt_minus_now :: "pydatetime \<Rightarrow> int \<Rightarrow> exn + int" where
  "dt_minus_now (Naive t) n = Inr (t - n)"
| "dt_minus_now (Aware t) n = Inl TypeError"

text \<open>\<^verbatim>\<open>dt < datetime.now()\<close>.\<close>

fun dt_before_now :: "pydatetime \<Rightarrow> int \<Rightarrow> exn + bool" where
  "dt_before_now (Naive t) n = Inr (t < n)"
| "dt_before_now (Aware t) n = Inl TypeError"

text \<open>
  \<^verbatim>\<open>datetime.fromisoformat(v)\<close> on a dictionary value: TypeError unless the value is a string,
  ValueError when the string is not an ISO date. The parser of the strings themselves is a
  parameter (\<open>None\<close> for a string it rejects).
\<close>

fun py_fromisoformat :: "(string \<Rightarrow> pydatetime option) \<Rightarrow> json \<Rightarrow> exn + pydatetime" where
  "py_fromisoformat parse (JStr s) = (case parse s of None \<Rightarrow> Inl ValueError | Some d \<Rightarrow> Inr d)"
| "py_fromisoformat parse v = Inl TypeError"

section \<open>License manager\<close>

datatype LicenseStatus =
    VALID
  | TRIAL
  | TRIAL_EXPIRED
  | EXPIRED
  | INVALID
  | NO_LICENSE
  | OFFLINE

text \<open>
  The manager's fields, and with them the contents of its license file
  (\<open>None\<close> while the file does not exist). Writing the file is taken to succeed.
\<close>

record manager =
  server_url :: string
  trial_days :: int
  license_data :: pydict
  device_id :: string
  status :: LicenseStatus
  license_file :: "file_content option"

text \<open>
  What \<^verbatim>\<open>requests.post\<close> returns: the status code and the outcome of \<^verbatim>\<open>response.json()\<close>,
  the parsed body or the exception it raises.
\<close>

record response =
  status_code :: int
  json_body :: "exn + json"

text \<open>
  Everything outside the manager that one call depends on: the clock, the license server
  (a request either raises or is answered), the platform name, and the library functions
  for ISO dates.
\<close>

record env =
  now :: int
  post :: "string \<Rightarrow> pydict \<Rightarrow> exn + response"
  platform_system :: string
  fromisoformat :: "string \<Rightarrow> pydatetime option"
  isoformat :: "int \<Rightarrow> string"

definition load_license :: "manager \<Rightarrow> manager" where
  "load_license m =
     (case license_file m of
        None \<Rightarrow> m
      | Some txt \<Rightarrow>
          (case json_load txt of
             None \<Rightarrow> m\<lparr>license_data := []\<rparr>
           | Some d \<Rightarrow> m\<lparr>license_data := d\<rparr>))"

definition save_license :: "manager \<Rightarrow> manager" where
  "save_license m = m\<lparr>license_file := Some (json_dump (license_data m))\<rparr>"

text \<open>
  The constructor, given the device identifier and the license file found on disk; the trial
  length defaults to 30 days.
\<close>

definition default_trial_days :: int where
  "default_trial_days = 30"

definition LicenseManager_init :: "string \<Rightarrow> int \<Rightarrow> string \<Rightarrow> file_content option \<Rightarrow> manager" where
  "LicenseManager_init url days dev file =
     load_license
       \<lparr>server_url = url, trial_days = days, license_data = [], device_id = dev,
        status = NO_LICENSE, license_file = file\<rparr>"

definition get_trial_days_left :: "env \<Rightarrow> manager \<Rightarrow> exn + int" where
  "get_trial_days_left w m =
     (case map_of (license_data m) ''trial_start'' of
        None \<Rightarrow> Inr (trial_days m)
      | Some v \<Rightarrow>
          (case py_fromisoformat (fromisoformat w) v of
             Inl e \<Rightarrow> Inl e
           | Inr trial_start \<Rightarrow>
               (case timedelta_days (trial_days m) of
                  Inl e \<Rightarrow> Inl e
                | Inr delta \<Rightarrow>
                    (case dt_add trial_start delta of
                       Inl e \<Rightarrow> Inl e
                     | Inr trial_end \<Rightarrow>
                         (case dt_minus_now trial_end (now w) of
                            Inl e \<Rightarrow> Inl e
                          | Inr remaining \<Rightarrow> Inr (max 0 (remaining div us_per_day)))))))"

definition get_expiry_date :: "env \<Rightarrow> manager \<Rightarrow> exn + pydatetime option" where
  "get_expiry_date w m =
     (case map_of (license_data m) ''expiry_date'' of
        None \<Rightarrow> Inr None
      | Some v \<Rightarrow>
          (case py_fromisoformat (fromisoformat w) v of
             Inl e \<Rightarrow> Inl e
           | Inr d \<Rightarrow> Inr (Some d)))"

text \<open>\<^verbatim>\<open>expiry and expiry < datetime.now()\<close>: a datetime object is always true.\<close>

fun expiry_passed :: "pydatetime option \<Rightarrow> int \<Rightarrow> exn + bool" where
  "expiry_passed None n = Inr False"
| "expiry_passed (Some d) n = dt_before_now d n"

text \<open>
  The body of the \<^verbatim>\<open>try\<close> block of \<^verbatim>\<open>validate\<close> for a paid license: the manager as the block
  leaves it, and the exception that leaves the block, if any.
\<close>

definition validate_online :: "env \<Rightarrow> manager \<Rightarrow> (exn + unit) \<times> manager" where
  "validate_online w m =
     (case post w (server_url m @ ''/license/validate'')
             [(''license_key'', dict_get (license_data m) ''license_key'' (JStr '''')),
              (''device_id'', JStr (device_id m))] of
        Inl e \<Rightarrow> (Inl e, m)
      | Inr r \<Rightarrow>
          if status_code r = 200 then
            (case json_body r of
               Inl e \<Rightarrow> (Inl e, m)
             | Inr data \<Rightarrow>
                 (case json_get data ''valid'' JNull of
                    Inl e \<Rightarrow> (Inl e, m)
                  | Inr valid \<Rightarrow>
                      if truthy valid then
                        (case json_get data ''expiry_date'' JNull of
                           Inl e \<Rightarrow> (Inl e, m)
                         | Inr ed \<Rightarrow>
                             (let m1 = save_license
                                    (m\<lparr>license_data := AList.update ''expiry_date'' ed (license_data m)\<rparr>)
                              in case get_expiry_date w m1 of
                                   Inl e \<Rightarrow> (Inl e, m1)
                                 | Inr expiry \<Rightarrow>
                                     (case expiry_passed expiry (now w) of
                                        Inl e \<Rightarrow> (Inl e, m1)
                                      | Inr b \<Rightarrow>
                                          if b then (Inr (), m1\<lparr>status := EXPIRED\<rparr>)
                                          else (Inr (), m1\<lparr>status := VALID\<rparr>))))
                      else (Inr (), m\<lparr>status := INVALID\<rparr>)))
          else (Inr (), m\<lparr>status := OFFLINE\<rparr>))"

text \<open>The handler of \<^verbatim>\<open>requests.RequestException\<close> in \<^verbatim>\<open>validate\<close>: the cached expiry decides.\<close>

definition validate_cached :: "env \<Rightarrow> manager \<Rightarrow> (exn + unit) \<times> manager" where
  "validate_cached w m =
     (case get_expiry_date w m of
        Inl e \<Rightarrow> (Inl e, m)
      | Inr expiry \<Rightarrow>
          (case expiry_passed expiry (now w) of
             Inl e \<Rightarrow> (Inl e, m)
           | Inr b \<Rightarrow>
               if b then (Inr (), m\<lparr>status := EXPIRED\<rparr>)
               else (Inr (), m\<lparr>status := OFFLINE\<rparr>)))"

text \<open>\<^verbatim>\<open>try: ... except requests.RequestException: ...\<close> around the two.\<close>

definition validate_paid :: "env \<Rightarrow> manager \<Rightarrow> (exn + unit) \<times> manager" where
  "validate_paid w m =
     (case validate_online w m of
        (Inl e, m') \<Rightarrow> if e = RequestException then validate_cached w m' else (Inl e, m')
      | (Inr u, m') \<Rightarrow> (Inr u, m'))"

definition validate :: "env \<Rightarrow> manager \<Rightarrow> (exn + LicenseStatus) \<times> manager" where
  "validate w m =
     (if license_data m = [] then (Inr NO_LICENSE, m\<lparr>status := NO_LICENSE\<rparr>)
      else
        (let license_type = dict_get (license_data m) ''license_type'' (JStr '''') in
         if license_type \<in> set [JStr ''trial'', JStr ''trial_offline''] then
           (case get_trial_days_left w m of
              Inl e \<Rightarrow> (Inl e, m)
            | Inr days_left \<Rightarrow>
                if days_left > 0 then (Inr TRIAL, m\<lparr>status := TRIAL\<rparr>)
                else (Inr TRIAL_EXPIRED, m\<lparr>status := TRIAL_EXPIRED\<rparr>))
         else if license_type \<in> set [JStr ''pro'', JStr ''lifetime''] then
           (case validate_paid w m of
              (Inl e, m') \<Rightarrow> (Inl e, m')
            | (Inr u, m') \<Rightarrow> (Inr (status m'), m'))
         else (Inr NO_LICENSE, m\<lparr>status := NO_LICENSE\<rparr>)))"

definition can_use_app :: "env \<Rightarrow> manager \<Rightarrow> (exn + bool) \<times> manager" where
  "can_use_app w m =
     (case validate w m of
        (Inl e, m') \<Rightarrow> (Inl e, m')
      | (Inr st, m') \<Rightarrow> (Inr (st \<in> set [VALID, TRIAL, OFFLINE]), m'))"

text \<open>
  The offline fallback of \<^verbatim>\<open>start_trial\<close>: the \<^verbatim>\<open>else\<close> branch and the exception handler
  run the same four statements.
\<close>

definition start_trial_offline :: "env \<Rightarrow> manager \<Rightarrow> string \<Rightarrow> manager" where
  "start_trial_offline w m email =
     (save_license
        (m\<lparr>license_data :=
             [(''email'', JStr email),
              (''trial_start'', JStr (isoformat w (now w))),
              (''license_type'', JStr ''trial_offline'')]\<rparr>))
     \<lparr>status := TRIAL\<rparr>"

definition start_trial :: "env \<Rightarrow> manager \<Rightarrow> string \<Rightarrow> (exn + bool) \<times> manager" where
  "start_trial w m email =
     (case post w (server_url m @ ''/license/trial'')
             [(''email'', JStr email),
              (''device_id'', JStr (device_id m)),
              (''platform'', JStr (platform_system w)),
              (''app_version'', JStr ''1.0.0'')] of
        Inl e \<Rightarrow>
          if e = RequestException then (Inr True, start_trial_offline w m email) else (Inl e, m)
      | Inr r \<Rightarrow>
          if status_code r = 200 then
            (case json_body r of
               Inl e \<Rightarrow>
                 if e = RequestException then (Inr True, start_trial_offline w m email)
                 else (Inl e, m)
             | Inr data \<Rightarrow>
                 (Inr True,
                  (save_license
                     (m\<lparr>license_data :=
                          [(''email'', JStr email),
                           (''trial_start'', JStr (isoformat w (now w))),
                           (''license_type'', JStr ''trial''),
                           (''server_response'', data)]\<rparr>))
                  \<lparr>status := TRIAL\<rparr>))
          else (Inr True, start_trial_offline w m email))"

text \<open>
  The messages of \<^verbatim>\<open>activate_license\<close>: success, the activation error with the server's
  \<^verbatim>\<open>error\<close> field (\<open>None\<close> for the default text), and the connection error with the exception.
\<close>

datatype message =
    Activated
  | ActivationError "json option"
  | ConnectionError exn

text \<open>The handler of \<^verbatim>\<open>requests.RequestException\<close> in \<^verbatim>\<open>activate_license\<close>.\<close>

definition activate_failed :: "exn \<Rightarrow> manager \<Rightarrow> (exn + bool \<times> message) \<times> manager" where
  "activate_failed e m =
     (if e = RequestException then (Inr (False, ConnectionError e), m) else (Inl e, m))"

definition activate_license :: "env \<Rightarrow> manager \<Rightarrow> string \<Rightarrow> (exn + bool \<times> message) \<times> manager" where
  "activate_license w m license_key =
     (case post w (server_url m @ ''/license/activate'')
             [(''license_key'', JStr license_key),
              (''device_id'', JStr (device_id m)),
              (''email'', dict_get (license_data m) ''email'' (JStr [])),
              (''platform'', JStr (platform_system w))] of
        Inl e \<Rightarrow> activate_failed e m
      | Inr r \<Rightarrow>
          if status_code r = 200 then
            (case json_body r of
               Inl e \<Rightarrow> activate_failed e m
             | Inr data \<Rightarrow>
                 (case json_get data ''license_type'' (JStr ''pro'') of
                    Inl e \<Rightarrow> activate_failed e m
                  | Inr license_type \<Rightarrow>
                      (case json_get data ''expiry_date'' JNull of
                         Inl e \<Rightarrow> activate_failed e m
                       | Inr expiry_date \<Rightarrow>
                           (Inr (True, Activated),
                            (save_license
                               (m\<lparr>license_data :=
                                    dict_update
                                      [(''license_key'', JStr license_key),
                                       (''license_type'', license_type),
                                       (''expiry_date'', expiry_date),
                                       (''activated_at'', JStr (isoformat w (now w)))]
                                      (license_data m)\<rparr>))
                            \<lparr>status := VALID\<rparr>))))
          else
            (case json_body r of
               Inl e \<Rightarrow> activate_failed e m
             | Inr (JDict d) \<Rightarrow> (Inr (False, ActivationError (map_of d ''error'')), m)
             | Inr v \<Rightarrow> activate_failed AttributeError m))"

section \<open>Text helpers\<close>

text \<open>
  \<^verbatim>\<open>str.strip()\<close>: the characters Python counts as whitespace, among the code points below
  256, are removed at both ends.
\<close>

definition py_isspace :: "char \<Rightarrow> bool" where
  "py_isspace c = (of_char c \<in> set [9, 10, 11, 12, 13, 28, 29, 30, 31, 32, 133, 160 :: nat])"

definition py_strip :: "string \<Rightarrow> string" where
  "py_strip s = rev (dropWhile py_isspace (rev (dropWhile py_isspace s)))"

section \<open>Unicode text and threads\<close>

text \<open>
  The bridge and the speech engine pass on text in any script; there a Python string is the
  list of its code points. \<open>ustr\<close> is an ASCII literal as such a string, and the whitespace
  of \<^verbatim>\<open>str.strip()\<close> and of the whitespace class of a regular expression is the set of code
  points for which \<^verbatim>\<open>str.isspace()\<close> holds.
\<close>

type_synonym ustring = "nat list"

definition ustr :: "string \<Rightarrow> ustring" where
  "ustr s = map of_char s"

definition unicode_isspace :: "nat \<Rightarrow> bool" where
  "unicode_isspace c =
     (c \<in> set [9, 10, 11, 12, 13, 28, 29, 30, 31, 32, 133, 160, 5760,
               8192, 8193, 8194, 8195, 8196, 8197, 8198, 8199, 8200, 8201, 8202,
               8232, 8233, 8239, 8287, 12288])"

definition unicode_strip :: "ustring \<Rightarrow> ustring" where
  "unicode_strip s = rev (dropWhile unicode_isspace (rev (dropWhile unicode_isspace s)))"

text \<open>
  A thread that an entry point creates and starts: the method it runs, with its argument,
  and its \<^verbatim>\<open>daemon\<close> flag. What the thread then does is the model of that method.
\<close>

datatype target =
    ExecuteQuery ustring
  | PlaySentences
  | RecordAudio
  | TranscribeAudio


section \<open>Bridge to the command-line assistant\<close>

text \<open>
  The calls the bridge makes, in the order it makes them: \<^verbatim>\<open>subprocess.run\<close> and
  \<^verbatim>\<open>subprocess.Popen\<close> with their argument lists, and the callbacks.
\<close>

datatype bridge_event =
    Run "ustring list"
  | Popen "ustring list"
  | OnOutput ustring
  | OnResponseComplete ustring
  | OnError exn

text \<open>
  The three callbacks are optional; a field says whether one is set. Callbacks are taken to
  return normally. \<open>current_process\<close> says whether a child process is recorded.
\<close>

record bridge =
  command :: ustring
  running :: bool
  current_process :: bool
  on_output :: bool
  on_response_complete :: bool
  on_error :: bool
  bridge_calls :: "bridge_event list"

text \<open>
  A child process as the bridge sees it: the lines that the loop over its standard output
  reads, the exception that ends the loop if a read fails (a line that cannot be decoded,
  say), and the outcome of waiting for the exit and reading the standard error. The child
  writes finitely many lines.
\<close>

record child =
  stdout_lines :: "ustring list"
  stdout_error :: "exn option"
  stderr_read :: "exn + ustring"

text \<open>
  The operating system: \<^verbatim>\<open>subprocess.run\<close> raises or gives the standard output of the
  finished command; \<^verbatim>\<open>subprocess.Popen\<close> raises or gives a child.
\<close>

record bridge_env =
  subprocess_run :: "ustring list \<Rightarrow> exn + ustring"
  popen :: "ustring list \<Rightarrow> exn + child"

definition ClaudeBridge_init :: "ustring \<Rightarrow> bridge" where
  "ClaudeBridge_init cmd =
     \<lparr>command = cmd, running = False, current_process = False, on_output = False,
      on_response_complete = False, on_error = False, bridge_calls = []\<rparr>"

definition bridge_call :: "bridge_event \<Rightarrow> bridge \<Rightarrow> bridge" where
  "bridge_call ev b = b\<lparr>bridge_calls := bridge_calls b @ [ev]\<rparr>"

text \<open>\<^verbatim>\<open>if self.on_error: self.on_error(...)\<close>, as every exception handler of the bridge has it.\<close>

definition report_error :: "exn \<Rightarrow> bridge \<Rightarrow> bridge" where
  "report_error e b = (if on_error b then bridge_call (OnError e) b else b)"



text \<open>The notice that \<^verbatim>\<open>_execute_query\<close> puts out first: an hourglass and "Processing...".\<close>

definition processing_notice :: ustring where
  "processing_notice = 9203 # ustr '' Processing...'' @ [10]"

text \<open>The loop over the lines of standard output; the second argument is \<^verbatim>\<open>response_text\<close>.\<close>

fun read_output :: "ustring list \<Rightarrow> ustring \<Rightarrow> bridge \<Rightarrow> ustring \<times> bridge" where
  "read_output [] response_text b = (response_text, b)"
| "read_output (line # rest) response_text b =
     read_output rest (response_text @ line)
       (if on_output b then bridge_call (OnOutput line) b else b)"

text \<open>
  The exception, if any, that leaves the \<^verbatim>\<open>try\<close> block once the lines have been read: from
  the read that ends the loop, or else from the wait and the read of the standard error.
\<close>

definition read_failure :: "child \<Rightarrow> exn option" where
  "read_failure p =
     (case stdout_error p of
        Some e \<Rightarrow> Some e
      | None \<Rightarrow> (case stderr_read p of Inl e \<Rightarrow> Some e | Inr stderr \<Rightarrow> None))"

text \<open>
  \<^verbatim>\<open>_execute_query\<close>: one \<^verbatim>\<open>try\<close> block around the notice, the launch, the loop, the wait and
  the completion; \<^verbatim>\<open>except Exception\<close> reports the error, and \<^verbatim>\<open>finally\<close> forgets the child.
\<close>

definition execute_query :: "bridge_env \<Rightarrow> bridge \<Rightarrow> ustring \<Rightarrow> bridge" where
  "execute_query w b text_in =
     (let b1 = (if on_output b then bridge_call (OnOutput processing_notice) b else b);
          args = [command b, ustr ''--print'', text_in];
          b2 = bridge_call (Popen args) b1
      in case popen w args of
           Inl e \<Rightarrow> (report_error e b2)\<lparr>current_process := False\<rparr>
         | Inr p \<Rightarrow>
             (case read_output (stdout_lines p) [] (b2\<lparr>current_process := True\<rparr>) of
                (response_text, b3) \<Rightarrow>
                  (case read_failure p of
                     Some e \<Rightarrow> (report_error e b3)\<lparr>current_process := False\<rparr>
                   | None \<Rightarrow>
                       (if on_response_complete b3 \<and> unicode_strip response_text \<noteq> []
                        then bridge_call (OnResponseComplete response_text) b3
                        else b3)\<lparr>current_process := False\<rparr>)))"

section \<open>Speech-to-text engine\<close>

datatype STTState = STT_IDLE | STT_RECORDING | STT_PROCESSING

text \<open>The WAV file that \<^verbatim>\<open>_save_wav\<close> writes: its header fields and its 16-bit samples.\<close>

record wav_file =
  nchannels :: nat
  sampwidth :: nat
  framerate :: nat
  frames :: "16 word list"

text \<open>The request of \<^verbatim>\<open>_send_to_groq\<close>: the address, the header, the file sent and the form data.\<close>

record upload =
  upload_url :: string
  authorization :: string
  audio_path :: string
  model :: string
  upload_language :: string
  response_format :: string

text \<open>
  What the engine does to the outside, in order: the callbacks it calls, the temporary file it
  writes and removes, and the request it sends.
\<close>

datatype stt_event =
    StateChanged STTState
  | WavWritten string wav_file
  | Uploaded upload
  | WavRemoved string
  | Transcription string
  | SttError exn

text \<open>
  The engine's fields. The audio buffer is the list of blocks that the recording callback
  appended. A callback field says whether the optional callback is set; callbacks are taken
  to return normally. \<open>stop_recording_event\<close> is the event \<^verbatim>\<open>_stop_recording\<close>, and
  \<open>stt_on_error\<close> the callback \<^verbatim>\<open>on_error\<close>. The recording thread itself is not modelled:
  a state holds whatever it has captured so far.
\<close>

record stt_engine =
  api_key :: string
  api_url :: string
  sample_rate :: nat
  channels :: nat
  state :: STTState
  audio_buffer :: "16 word list list"
  stop_recording_event :: bool
  language :: string
  on_state_changed :: bool
  on_transcription :: bool
  stt_on_error :: bool
  stt_calls :: "stt_event list"

text \<open>
  The outside of the engine: the name of the temporary file, and the transcription service,
  which raises or answers with a status code and a text.
\<close>

record stt_env =
  temp_path :: string
  groq_post :: "upload \<Rightarrow> exn + int \<times> string"

definition stt_call :: "stt_event \<Rightarrow> stt_engine \<Rightarrow> stt_engine" where
  "stt_call ev s = s\<lparr>stt_calls := stt_calls s @ [ev]\<rparr>"

definition set_state :: "STTState \<Rightarrow> stt_engine \<Rightarrow> stt_engine" where
  "set_state st s =
     (let s' = s\<lparr>state := st\<rparr>
      in if on_state_changed s' then stt_call (StateChanged st) s' else s')"


text \<open>
  \<^verbatim>\<open>stop_recording\<close> returns the engine and whether it has started the transcription thread,
  a daemon thread that runs \<^verbatim>\<open>_transcribe_audio\<close>.
\<close>

definition stop_recording :: "stt_engine \<Rightarrow> stt_engine \<times> bool" where
  "stop_recording s =
     (if state s \<noteq> STT_RECORDING then (s, False)
      else
        (let s1 = s\<lparr>stop_recording_event := True\<rparr>
         in if audio_buffer s1 \<noteq> [] then (set_state STT_PROCESSING s1, True)
            else (set_state STT_IDLE s1, False)))"

text \<open>\<^verbatim>\<open>np.concatenate\<close> raises ValueError on an empty list of arrays.\<close>

definition np_concatenate :: "'a list list \<Rightarrow> exn + 'a list" where
  "np_concatenate blocks = (if blocks = [] then Inl ValueError else Inr (concat blocks))"

definition save_wav :: "stt_env \<Rightarrow> stt_engine \<Rightarrow> 16 word list \<Rightarrow> string \<times> stt_engine" where
  "save_wav w s audio_data =
     (temp_path w,
      stt_call (WavWritten (temp_path w)
        \<lparr>nchannels = channels s, sampwidth = 2, framerate = sample_rate s, frames = audio_data\<rparr>) s)"

definition send_to_groq :: "stt_env \<Rightarrow> stt_engine \<Rightarrow> string \<Rightarrow> (exn + string) \<times> stt_engine" where
  "send_to_groq w s path =
     (let req = \<lparr>upload_url = api_url s, authorization = ''Bearer '' @ api_key s,
                 audio_path = path, model = ''whisper-large-v3'',
                 upload_language = language s, response_format = ''text''\<rparr>;
          s1 = stt_call (Uploaded req) s
      in case groq_post w req of
           Inl e \<Rightarrow> (Inl e, s1)
         | Inr (code, body) \<Rightarrow>
             if code = 200 then (Inr (py_strip body), s1) else (Inl (ApiError code body), s1))"

text \<open>
  The two nested \<^verbatim>\<open>try\<close> blocks of \<^verbatim>\<open>_transcribe_audio\<close>, without the outer \<^verbatim>\<open>finally\<close>:
  the exception that reaches the outer handler, if any.
\<close>

definition transcribe_body :: "stt_env \<Rightarrow> stt_engine \<Rightarrow> (exn + unit) \<times> stt_engine" where
  "transcribe_body w s =
     (if api_key s = [] then (Inl ValueError, s)
      else
        (case np_concatenate (audio_buffer s) of
           Inl e \<Rightarrow> (Inl e, s)
         | Inr audio_data \<Rightarrow>
             (case save_wav w s audio_data of
                (wav_path, s1) \<Rightarrow>
                  (case send_to_groq w s1 wav_path of
                     (Inl e, s2) \<Rightarrow> (Inl e, stt_call (WavRemoved wav_path) s2)
                   | (Inr txt, s2) \<Rightarrow>
                       (Inr (),
                        stt_call (WavRemoved wav_path)
                          (if txt \<noteq> [] \<and> on_transcription s2
                           then stt_call (Transcription txt) s2 else s2))))))"

definition transcribe_audio :: "stt_env \<Rightarrow> stt_engine \<Rightarrow> stt_engine" where
  "transcribe_audio w s =
     (let s1 = (case transcribe_body w s of
                  (Inl e, s') \<Rightarrow> if stt_on_error s' then stt_call (SttError e) s' else s'
                | (Inr u, s') \<Rightarrow> s')
      in set_state STT_IDLE (s1\<lparr>audio_buffer := []\<rparr>))"

text \<open>
  \<^verbatim>\<open>stop_recording\<close> followed by the run of the thread it starts, when it starts one.
\<close>

definition stop_and_transcribe :: "stt_env \<Rightarrow> stt_engine \<Rightarrow> stt_engine" where
  "stop_and_transcribe w s =
     (case stop_recording s of
        (s', started) \<Rightarrow> if started then transcribe_audio w s' else s')"

section \<open>Text-to-speech engine\<close>

datatype TTSState = TTS_IDLE | TTS_GENERATING | TTS_PLAYING | TTS_PAUSED | TTS_STOPPED

text \<open>The calls to the audio mixer and to the state callback, in order.\<close>

datatype tts_event =
    TtsStateChanged TTSState
  | MusicPause
  | MusicUnpause
  | MusicStop

text \<open>
  The fields that \<^verbatim>\<open>speak\<close>, \<^verbatim>\<open>pause\<close>, \<^verbatim>\<open>resume\<close> and \<^verbatim>\<open>stop\<close> read and write; \<open>tts_state\<close> is
  the field \<^verbatim>\<open>state\<close>. An event is \<open>True\<close> when set, and \<open>tts_on_state_changed\<close> says
  whether the state callback is set; the callback is taken to return normally. The playback
  thread is not modelled: \<^verbatim>\<open>stop\<close> waits for it for at most two seconds, which changes no
  field.
\<close>

record tts_engine =
  tts_state :: TTSState
  current_text :: ustring
  sentences :: "ustring list"
  current_sentence_index :: nat
  stop_event :: bool
  pause_event :: bool
  temp_files :: "string list"
  tts_on_state_changed :: bool
  tts_calls :: "tts_event list"

definition tts_call :: "tts_event \<Rightarrow> tts_engine \<Rightarrow> tts_engine" where
  "tts_call ev s = s\<lparr>tts_calls := tts_calls s @ [ev]\<rparr>"

definition tts_set_state :: "TTSState \<Rightarrow> tts_engine \<Rightarrow> tts_engine" where
  "tts_set_state st s =
     (let s' = s\<lparr>tts_state := st\<rparr>
      in if tts_on_state_changed s' then tts_call (TtsStateChanged st) s' else s')"

definition pause :: "tts_engine \<Rightarrow> tts_engine" where
  "pause s =
     (if tts_state s = TTS_PLAYING
      then tts_set_state TTS_PAUSED (tts_call MusicPause (s\<lparr>pause_event := False\<rparr>))
      else s)"

definition resume :: "tts_engine \<Rightarrow> tts_engine" where
  "resume s =
     (if tts_state s = TTS_PAUSED
      then tts_set_state TTS_PLAYING (tts_call MusicUnpause (s\<lparr>pause_event := True\<rparr>))
      else s)"

definition cleanup_temp_files :: "tts_engine \<Rightarrow> tts_engine" where
  "cleanup_temp_files s = s\<lparr>temp_files := []\<rparr>"

definition stop :: "tts_engine \<Rightarrow> tts_engine" where
  "stop s =
     tts_set_state TTS_IDLE
       (cleanup_temp_files (tts_call MusicStop (s\<lparr>stop_event := True, pause_event := True\<rparr>)))"




section \<open>Example scenarios\<close>

text \<open>
  Concrete surroundings on which the properties below are exercised. The clock stands at
  2026-11-04T12:00:00; the date parser knows four timestamps, the second column being the
  microseconds since 0001-01-01.
\<close>

definition example_fromisoformat :: "string \<Rightarrow> pydatetime option" where
  "example_fromisoformat s =
     (if s = ''2026-10-20T12:00:00'' then Some (Naive 63928094400000000)
      else if s = ''2026-09-01T12:00:00'' then Some (Naive 63923860800000000)
      else if s = ''2027-01-01T00:00:00'' then Some (Naive 63934358400000000)
      else if s = ''2026-01-01T00:00:00'' then Some (Naive 63902822400000000)
      else None)"

text \<open>A trial begun fifteen days ago, and one begun more than thirty days ago.\<close>

definition example_trial_data :: pydict where
  "example_trial_data =
     [(''email'', JStr ''ann@example.org''),
      (''trial_start'', JStr ''2026-10-20T12:00:00''),
      (''license_type'', JStr ''trial_offline'')]"

definition example_old_trial_data :: pydict where
  "example_old_trial_data =
     [(''email'', JStr ''ann@example.org''),
      (''trial_start'', JStr ''2026-09-01T12:00:00''),
      (''license_type'', JStr ''trial'')]"

definition example_env :: "(string \<Rightarrow> pydict \<Rightarrow> exn + response) \<Rightarrow> env" where
  "example_env server =
     \<lparr>now = 63929390400000000, post = server, platform_system = ''Linux'',
      fromisoformat = example_fromisoformat,
      isoformat = (\<lambda>t. if t = 63929390400000000 then ''2026-11-04T12:00:00'' else [])\<rparr>"

text \<open>A license server that cannot be reached.\<close>

definition server_down :: "string \<Rightarrow> pydict \<Rightarrow> exn + response" where
  "server_down url payload = Inl RequestException"

definition example_manager :: "pydict \<Rightarrow> manager" where
  "example_manager d =
     \<lparr>server_url = ''https://license.example.org/api'', trial_days = 30, license_data = d,
      device_id = ''0123456789abcdef'', status = NO_LICENSE, license_file = None\<rparr>"

text \<open>A trial license on which no start has been recorded.\<close>

definition example_unstarted_data :: pydict where
  "example_unstarted_data = [(''license_type'', JStr ''trial'')]"

text \<open>
  A server that grants every request with a lifetime license and names no expiry date, and
  one that answers every request with an error.
\<close>

definition server_lifetime :: "string \<Rightarrow> pydict \<Rightarrow> exn + response" where
  "server_lifetime url payload =
     Inr \<lparr>status_code = 200, json_body = Inr (JDict [(''license_type'', JStr ''lifetime'')])\<rparr>"

definition server_error :: "string \<Rightarrow> pydict \<Rightarrow> exn + response" where
  "server_error url payload =
     Inr \<lparr>status_code = 500, json_body = Inr (JDict [(''error'', JStr ''internal error'')])\<rparr>"


text \<open>The license data after the first server has activated the key \<^verbatim>\<open>KEY-1\<close>.\<close>

definition example_lifetime_data :: pydict where
  "example_lifetime_data =
     [(''email'', JStr ''ann@example.org''),
      (''trial_start'', JStr ''2026-10-20T12:00:00''),
      (''license_type'', JStr ''lifetime''),
      (''license_key'', JStr ''KEY-1''),
      (''expiry_date'', JNull),
      (''activated_at'', JStr ''2026-11-04T12:00:00'')]"

text \<open>The outcome of the request that \<^verbatim>\<open>start_trial\<close> sends.\<close>

definition trial_request :: "env \<Rightarrow> manager \<Rightarrow> string \<Rightarrow> exn + response" where
  "trial_request w m email =
     post w (server_url m @ ''/license/trial'')
       [(''email'', JStr email),
        (''device_id'', JStr (device_id m)),
        (''platform'', JStr (platform_system w)),
        (''app_version'', JStr ''1.0.0'')]"

text \<open>A server that registers every trial.\<close>

definition server_trial :: "string \<Rightarrow> pydict \<Rightarrow> exn + response" where
  "server_trial url payload =
     Inr \<lparr>status_code = 200, json_body = Inr (JDict [(''trial'', JBool True)])\<rparr>"



text \<open>
  A bridge that has been started, with its three callbacks set, and a command-line tool that
  answers one query with two lines, one with whitespace only, and one with a line followed by
  output that cannot be decoded. The words of the first answer are Polish, with letters
  beyond Latin-1.
\<close>

definition example_bridge :: bridge where
  "example_bridge =
     (ClaudeBridge_init (ustr ''claude''))
       \<lparr>running := True, on_output := True, on_response_complete := True, on_error := True\<rparr>"

definition example_cli :: bridge_env where
  "example_cli =
     \<lparr>subprocess_run = (\<lambda>args.
        if args = [ustr ''claude'', ustr ''--version''] then Inr (ustr ''1.0.0'')
        else Inl FileNotFoundError),
      popen = (\<lambda>args.
        if args = [ustr ''claude'', ustr ''--print'', ustr ''hello'']
        then Inr \<lparr>stdout_lines = [[67, 122, 101, 347, 263, 10], ustr ''there''],
                  stdout_error = None, stderr_read = Inr []\<rparr>
        else if args = [ustr ''claude'', ustr ''--print'', ustr ''blank'']
        then Inr \<lparr>stdout_lines = [[32], [10]], stdout_error = None, stderr_read = Inr []\<rparr>
        else if args = [ustr ''claude'', ustr ''--print'', ustr ''garbled'']
        then Inr \<lparr>stdout_lines = [ustr ''ok'' @ [10]], stdout_error = Some UnicodeDecodeError,
                  stderr_read = Inr []\<rparr>
        else Inl FileNotFoundError)\<rparr>"

text \<open>A playback engine in a given state, with the state callback set.\<close>

definition example_tts :: "TTSState \<Rightarrow> tts_engine" where
  "example_tts st =
     \<lparr>tts_state = st, current_text = [], sentences = [], current_sentence_index = 0,
      stop_event = False, pause_event = True,
      temp_files = [''/tmp/claude_tts_1.mp3''], tts_on_state_changed = True, tts_calls = []\<rparr>"

text \<open>The constructor of the speech-to-text engine, with the fields it sets.\<close>

definition STTEngine_init :: "string \<Rightarrow> stt_engine" where
  "STTEngine_init key =
     \<lparr>api_key = key, api_url = ''https://api.groq.com/openai/v1/audio/transcriptions'',
      sample_rate = 16000, channels = 1, state = STT_IDLE, audio_buffer = [],
      stop_recording_event = False, language = ''pl'', on_state_changed = False,
      on_transcription = False, stt_on_error = False, stt_calls = []\<rparr>"

text \<open>The WAV file and the request that a transcription of the engine's buffer makes.\<close>

definition wav_of :: "stt_engine \<Rightarrow> wav_file" where
  "wav_of s =
     \<lparr>nchannels = channels s, sampwidth = 2, framerate = sample_rate s,
      frames = concat (audio_buffer s)\<rparr>"

definition upload_of :: "stt_env \<Rightarrow> stt_engine \<Rightarrow> upload" where
  "upload_of w s =
     \<lparr>upload_url = api_url s, authorization = ''Bearer '' @ api_key s,
      audio_path = temp_path w, model = ''whisper-large-v3'',
      upload_language = language s, response_format = ''text''\<rparr>"

text \<open>The events that write the audio to a file or send it.\<close>

fun is_transfer :: "stt_event \<Rightarrow> bool" where
  "is_transfer (WavWritten p f) = True"
| "is_transfer (Uploaded r) = True"
| "is_transfer ev = False"

text \<open>
  An engine that is recording, with its callbacks set, and a transcription service that
  answers every request with a text.
\<close>

definition example_recording :: "string \<Rightarrow> 16 word list list \<Rightarrow> stt_engine" where
  "example_recording key blocks =
     (STTEngine_init key)
       \<lparr>state := STT_RECORDING, audio_buffer := blocks, on_state_changed := True,
        on_transcription := True, stt_on_error := True\<rparr>"

definition example_groq :: stt_env where
  "example_groq =
     \<lparr>temp_path = ''/tmp/claude_stt_1.wav'', groq_post = (\<lambda>req. Inr (200, ''dzien dobry''))\<rparr>"



section \<open>Properties of the license manager\<close>

lemmas example_defs =
  example_env_def example_manager_def example_trial_data_def example_old_trial_data_def
  example_fromisoformat_def server_down_def
  example_unstarted_data_def

lemmas datetime_defs = timedelta_days_def us_per_day_def datetime_end_def

lemma validate_empty:
  "license_data m = [] \<Longrightarrow> validate w m = (Inr NO_LICENSE, m\<lparr>status := NO_LICENSE\<rparr>)"
  by (simp add: validate_def)

lemma validate_example_trial:
  "fst (validate (example_env server_down) (example_manager example_trial_data)) = Inr TRIAL"
  by (simp add: validate_def get_trial_days_left_def dict_get_def Let_def
      example_defs datetime_defs)

lemma validate_example_old_trial:
  "fst (validate (example_env server_down) (example_manager example_old_trial_data))
     = Inr TRIAL_EXPIRED"
  by (simp add: validate_def get_trial_days_left_def dict_get_def Let_def
      example_defs datetime_defs)

text \<open>
  C1. The gate admits the user exactly in the non-blocking statuses: \<^verbatim>\<open>can_use_app()\<close>
  returns True if and only if \<^verbatim>\<open>validate()\<close> yields VALID, TRIAL or OFFLINE, and returns
  False when the status is TRIAL_EXPIRED, EXPIRED, INVALID or NO_LICENSE; it leaves the
  manager as \<^verbatim>\<open>validate()\<close> leaves it; and \<^verbatim>\<open>validate()\<close> on empty license data yields
  NO_LICENSE. This holds for every manager, clock and server.
\<close>

theorem can_use_app_gate:
  "((fst (can_use_app w m) = Inr True) =
      (fst (validate w m) \<in> {Inr VALID, Inr TRIAL, Inr OFFLINE}))
   \<and> (fst (validate w m) \<in> {Inr TRIAL_EXPIRED, Inr EXPIRED, Inr INVALID, Inr NO_LICENSE}
        \<longrightarrow> fst (can_use_app w m) = Inr False)
   \<and> snd (can_use_app w m) = snd (validate w m)
   \<and> (license_data m = [] \<longrightarrow> fst (validate w m) = Inr NO_LICENSE)"
proof -
  obtain r m' where v: "validate w m = (r, m')"
    by (cases "validate w m")
  have e: "license_data m = [] \<longrightarrow> fst (validate w m) = Inr NO_LICENSE"
    by (simp add: validate_empty)
  show ?thesis
  proof (cases r)
    case (Inl x)
    with v e show ?thesis
      by (simp add: can_use_app_def)
  next
    case (Inr st)
    with v e show ?thesis
      by (cases st) (simp_all add: can_use_app_def)
  qed
qed

theorem can_use_app_gate_witness:
  "fst (validate (example_env server_down) (example_manager example_trial_data)) = Inr TRIAL
   \<and> fst (can_use_app (example_env server_down) (example_manager example_trial_data)) = Inr True
   \<and> fst (validate (example_env server_down) (example_manager example_old_trial_data))
        = Inr TRIAL_EXPIRED
   \<and> fst (can_use_app (example_env server_down) (example_manager example_old_trial_data))
        = Inr False
   \<and> license_data (example_manager []) = []
   \<and> fst (validate (example_env server_down) (example_manager [])) = Inr NO_LICENSE
   \<and> fst (can_use_app (example_env server_down) (example_manager [])) = Inr False"
proof -
  have e: "license_data (example_manager []) = []"
    by (simp add: example_manager_def)
  show ?thesis
    using can_use_app_gate [of "example_env server_down" "example_manager example_trial_data"]
      can_use_app_gate [of "example_env server_down" "example_manager example_old_trial_data"]
      can_use_app_gate [of "example_env server_down" "example_manager []"]
      validate_example_trial validate_example_old_trial e
    by simp
qed

lemma trial_type_nonempty:
  "dict_get d ''license_type'' (JStr []) \<in> set [JStr ''trial'', JStr ''trial_offline''] \<Longrightarrow> d \<noteq> []"
  by (auto simp: dict_get_def)

lemma get_trial_days_left_clamped:
  "map_of (license_data m) ''trial_start'' = Some v \<Longrightarrow> get_trial_days_left w m = Inr n \<Longrightarrow> 0 \<le> n"
  by (auto simp: get_trial_days_left_def split: sum.splits)

lemma get_trial_days_left_value:
  assumes "map_of (license_data m) ''trial_start'' = Some (JStr s)"
    and "fromisoformat w s = Some (Naive t)"
    and "\<bar>trial_days m\<bar> \<le> 999999999"
    and "0 \<le> t + trial_days m * us_per_day"
    and "t + trial_days m * us_per_day < datetime_end"
  shows "get_trial_days_left w m
           = Inr (max 0 ((t + trial_days m * us_per_day - now w) div us_per_day))"
  using assms by (simp add: get_trial_days_left_def timedelta_days_def)

lemma validate_trial:
  assumes "dict_get (license_data m) ''license_type'' (JStr []) \<in> set [JStr ''trial'', JStr ''trial_offline'']"
  shows "validate w m =
           (case get_trial_days_left w m of
              Inl e \<Rightarrow> (Inl e, m)
            | Inr n \<Rightarrow> if 0 < n then (Inr TRIAL, m\<lparr>status := TRIAL\<rparr>)
                       else (Inr TRIAL_EXPIRED, m\<lparr>status := TRIAL_EXPIRED\<rparr>))"
  using assms trial_type_nonempty [OF assms] by (simp add: validate_def Let_def)

text \<open>
  C2, as the code has it. Trial accounting. \<^verbatim>\<open>get_trial_days_left()\<close> returns the
  configured \<^verbatim>\<open>trial_days\<close> (30 by default) when no \<^verbatim>\<open>trial_start\<close> is recorded, so that
  without a recorded start the result is negative exactly when the configured trial length
  is. When \<^verbatim>\<open>trial_start\<close> is the ISO text of a naive timestamp \<open>t\<close> and \<open>t\<close> plus the trial
  length is a date Python can represent, it returns the whole days from now until \<open>t\<close> plus
  \<^verbatim>\<open>trial_days\<close> days, or 0 when that is negative; whatever it returns with \<^verbatim>\<open>trial_start\<close>
  recorded is never negative.
  For a license of type \<^verbatim>\<open>trial\<close> or \<^verbatim>\<open>trial_offline\<close>, \<^verbatim>\<open>validate()\<close> returns TRIAL exactly
  when \<^verbatim>\<open>get_trial_days_left()\<close> is positive and TRIAL_EXPIRED when it is not, and sets the
  status to what it returns.
\<close>

theorem trial_accounting:
  "(map_of (license_data m) ''trial_start'' = None
      \<longrightarrow> get_trial_days_left w m = Inr (trial_days m))
   \<and> trial_days (LicenseManager_init url default_trial_days dev file) = 30
   \<and> (map_of (license_data m) ''trial_start'' = Some (JStr s)
        \<and> fromisoformat w s = Some (Naive t)
        \<and> \<bar>trial_days m\<bar> \<le> 999999999
        \<and> 0 \<le> t + trial_days m * us_per_day
        \<and> t + trial_days m * us_per_day < datetime_end
      \<longrightarrow> get_trial_days_left w m
            = Inr (max 0 ((t + trial_days m * us_per_day - now w) div us_per_day)))
   \<and> (map_of (license_data m) ''trial_start'' \<noteq> None \<and> get_trial_days_left w m = Inr n
      \<longrightarrow> 0 \<le> n)
   \<and> (0 \<le> trial_days m \<and> get_trial_days_left w m = Inr n \<longrightarrow> 0 \<le> n)
   \<and> (dict_get (license_data m) ''license_type'' (JStr [])
          \<in> set [JStr ''trial'', JStr ''trial_offline'']
        \<and> get_trial_days_left w m = Inr n
      \<longrightarrow> fst (validate w m) = Inr (if 0 < n then TRIAL else TRIAL_EXPIRED)
          \<and> status (snd (validate w m)) = (if 0 < n then TRIAL else TRIAL_EXPIRED))
   \<and> (dict_get (license_data m) ''license_type'' (JStr [])
          \<in> set [JStr ''trial'', JStr ''trial_offline'']
      \<longrightarrow> (fst (validate w m) = Inr TRIAL) = (\<exists>k. get_trial_days_left w m = Inr k \<and> 0 < k))"
proof -
  have a: "map_of (license_data m) ''trial_start'' = None
      \<longrightarrow> get_trial_days_left w m = Inr (trial_days m)"
    by (simp add: get_trial_days_left_def)
  have b: "trial_days (LicenseManager_init url default_trial_days dev file) = 30"
    by (simp add: LicenseManager_init_def load_license_def default_trial_days_def
        split: option.splits)
  have c: "map_of (license_data m) ''trial_start'' = Some (JStr s)
        \<and> fromisoformat w s = Some (Naive t)
        \<and> \<bar>trial_days m\<bar> \<le> 999999999
        \<and> 0 \<le> t + trial_days m * us_per_day
        \<and> t + trial_days m * us_per_day < datetime_end
      \<longrightarrow> get_trial_days_left w m
            = Inr (max 0 ((t + trial_days m * us_per_day - now w) div us_per_day))"
    using get_trial_days_left_value by blast
  have d: "map_of (license_data m) ''trial_start'' \<noteq> None \<and> get_trial_days_left w m = Inr n
      \<longrightarrow> 0 \<le> n"
    using get_trial_days_left_clamped by blast
  have e: "0 \<le> trial_days m \<and> get_trial_days_left w m = Inr n \<longrightarrow> 0 \<le> n"
  proof (cases "map_of (license_data m) ''trial_start''")
    case None
    with a show ?thesis by auto
  next
    case (Some v)
    with d show ?thesis by simp
  qed
  have f: "dict_get (license_data m) ''license_type'' (JStr [])
          \<in> set [JStr ''trial'', JStr ''trial_offline'']
        \<and> get_trial_days_left w m = Inr n
      \<longrightarrow> fst (validate w m) = Inr (if 0 < n then TRIAL else TRIAL_EXPIRED)
          \<and> status (snd (validate w m)) = (if 0 < n then TRIAL else TRIAL_EXPIRED)"
    by (simp add: validate_trial)
  have g: "dict_get (license_data m) ''license_type'' (JStr [])
          \<in> set [JStr ''trial'', JStr ''trial_offline'']
      \<longrightarrow> (fst (validate w m) = Inr TRIAL) = (\<exists>k. get_trial_days_left w m = Inr k \<and> 0 < k)"
    by (auto simp: validate_trial split: sum.splits)
  from a b c d e f g show ?thesis by blast
qed


theorem trial_accounting_witness:
  "map_of (license_data (example_manager example_unstarted_data)) ''trial_start'' = None
   \<and> get_trial_days_left (example_env server_down) (example_manager example_unstarted_data)
        = Inr 30
   \<and> fst (validate (example_env server_down) (example_manager example_unstarted_data))
        = Inr TRIAL
   \<and> map_of (license_data (example_manager example_trial_data)) ''trial_start''
        = Some (JStr ''2026-10-20T12:00:00'')
   \<and> fromisoformat (example_env server_down) ''2026-10-20T12:00:00''
        = Some (Naive 63928094400000000)
   \<and> get_trial_days_left (example_env server_down) (example_manager example_trial_data)
        = Inr 15
   \<and> fst (validate (example_env server_down) (example_manager example_trial_data)) = Inr TRIAL
   \<and> get_trial_days_left (example_env server_down) (example_manager example_old_trial_data)
        = Inr 0
   \<and> fst (validate (example_env server_down) (example_manager example_old_trial_data))
        = Inr TRIAL_EXPIRED"
proof -
  let ?w = "example_env server_down"
  let ?m0 = "example_manager example_unstarted_data"
  let ?m1 = "example_manager example_trial_data"
  let ?m2 = "example_manager example_old_trial_data"
  have h0: "map_of (license_data ?m0) ''trial_start'' = None"
    by (simp add: example_defs example_unstarted_data_def)
  have t0: "dict_get (license_data ?m0) ''license_type'' (JStr [])
              \<in> set [JStr ''trial'', JStr ''trial_offline'']"
    by (simp add: example_defs example_unstarted_data_def dict_get_def)
  have d0: "trial_days ?m0 = 30"
    by (simp add: example_defs)
  have h1: "map_of (license_data ?m1) ''trial_start'' = Some (JStr ''2026-10-20T12:00:00'')"
    by (simp add: example_defs)
  have p1: "fromisoformat ?w ''2026-10-20T12:00:00'' = Some (Naive 63928094400000000)"
    by (simp add: example_defs)
  have r1: "\<bar>trial_days ?m1\<bar> \<le> 999999999
      \<and> 0 \<le> 63928094400000000 + trial_days ?m1 * us_per_day
      \<and> 63928094400000000 + trial_days ?m1 * us_per_day < datetime_end"
    by (simp add: example_defs datetime_defs)
  have v1: "max 0 ((63928094400000000 + trial_days ?m1 * us_per_day - now ?w) div us_per_day)
              = 15"
    by (simp add: example_defs datetime_defs)
  have t1: "dict_get (license_data ?m1) ''license_type'' (JStr [])
              \<in> set [JStr ''trial'', JStr ''trial_offline'']"
    by (simp add: example_defs dict_get_def)
  have h2: "map_of (license_data ?m2) ''trial_start'' = Some (JStr ''2026-09-01T12:00:00'')"
    by (simp add: example_defs)
  have p2: "fromisoformat ?w ''2026-09-01T12:00:00'' = Some (Naive 63923860800000000)"
    by (simp add: example_defs)
  have r2: "\<bar>trial_days ?m2\<bar> \<le> 999999999
      \<and> 0 \<le> 63923860800000000 + trial_days ?m2 * us_per_day
      \<and> 63923860800000000 + trial_days ?m2 * us_per_day < datetime_end"
    by (simp add: example_defs datetime_defs)
  have v2: "max 0 ((63923860800000000 + trial_days ?m2 * us_per_day - now ?w) div us_per_day)
              = 0"
    by (simp add: example_defs datetime_defs)
  have t2: "dict_get (license_data ?m2) ''license_type'' (JStr [])
              \<in> set [JStr ''trial'', JStr ''trial_offline'']"
    by (simp add: example_defs dict_get_def)
  have "get_trial_days_left ?w ?m0 = Inr (trial_days ?m0)"
    using trial_accounting [where m = ?m0 and w = ?w] h0 by blast
  with d0 have g0: "get_trial_days_left ?w ?m0 = Inr 30"
    by simp
  have "get_trial_days_left ?w ?m1
          = Inr (max 0 ((63928094400000000 + trial_days ?m1 * us_per_day - now ?w)
                   div us_per_day))"
    using trial_accounting [where m = ?m1 and w = ?w and s = "''2026-10-20T12:00:00''"
        and t = 63928094400000000] h1 p1 r1 by blast
  with v1 have g1: "get_trial_days_left ?w ?m1 = Inr 15"
    by simp
  have "get_trial_days_left ?w ?m2
          = Inr (max 0 ((63923860800000000 + trial_days ?m2 * us_per_day - now ?w)
                   div us_per_day))"
    using trial_accounting [where m = ?m2 and w = ?w and s = "''2026-09-01T12:00:00''"
        and t = 63923860800000000] h2 p2 r2 by blast
  with v2 have g2: "get_trial_days_left ?w ?m2 = Inr 0"
    by simp
  have "fst (validate ?w ?m0) = Inr (if 0 < (30::int) then TRIAL else TRIAL_EXPIRED)"
    using trial_accounting [where m = ?m0 and w = ?w and n = 30] t0 g0 by blast
  then have s0: "fst (validate ?w ?m0) = Inr TRIAL"
    by simp
  have "fst (validate ?w ?m1) = Inr (if 0 < (15::int) then TRIAL else TRIAL_EXPIRED)"
    using trial_accounting [where m = ?m1 and w = ?w and n = 15] t1 g1 by blast
  then have s1: "fst (validate ?w ?m1) = Inr TRIAL"
    by simp
  have "fst (validate ?w ?m2) = Inr (if 0 < (0::int) then TRIAL else TRIAL_EXPIRED)"
    using trial_accounting [where m = ?m2 and w = ?w and n = 0] t2 g2 by blast
  then have s2: "fst (validate ?w ?m2) = Inr TRIAL_EXPIRED"
    by simp
  from h0 g0 s0 h1 p1 g1 s1 g2 s2 show ?thesis by simp
qed

text \<open>
  C2 as stated fails in its "never negative": a manager constructed with a trial length of
  -5 days, on which no trial has been started, reports -5 days left.
\<close>

theorem trial_days_left_negative:
  "map_of (license_data (LicenseManager_init ''https://license.example.org/api'' (- 5)
       ''0123456789abcdef'' None)) ''trial_start'' = None
   \<and> get_trial_days_left (example_env server_down)
         (LicenseManager_init ''https://license.example.org/api'' (- 5)
            ''0123456789abcdef'' None) = Inr (- 5)"
  by (simp add: LicenseManager_init_def load_license_def get_trial_days_left_def)

subsection \<open>Paid licenses\<close>

lemma paid_type_nonempty:
  "dict_get d ''license_type'' (JStr []) \<in> set [JStr ''pro'', JStr ''lifetime''] \<Longrightarrow> d \<noteq> []"
  by (auto simp: dict_get_def)

lemma validate_paid_type:
  assumes "dict_get (license_data m) ''license_type'' (JStr []) \<in> set [JStr ''pro'', JStr ''lifetime'']"
  shows "validate w m =
           (case validate_paid w m of
              (Inl e, m') \<Rightarrow> (Inl e, m')
            | (Inr u, m') \<Rightarrow> (Inr (status m'), m'))"
  using assms paid_type_nonempty [OF assms] by (auto simp: validate_def Let_def)

lemma validate_network_error:
  assumes "dict_get (license_data m) ''license_type'' (JStr []) \<in> set [JStr ''pro'', JStr ''lifetime'']"
    and "post w (server_url m @ ''/license/validate'')
           [(''license_key'', dict_get (license_data m) ''license_key'' (JStr [])),
            (''device_id'', JStr (device_id m))] = Inl RequestException"
  shows "validate w m =
           (case get_expiry_date w m of
              Inl e \<Rightarrow> (Inl e, m)
            | Inr expiry \<Rightarrow>
                (case expiry_passed expiry (now w) of
                   Inl e \<Rightarrow> (Inl e, m)
                 | Inr b \<Rightarrow> if b then (Inr EXPIRED, m\<lparr>status := EXPIRED\<rparr>)
                            else (Inr OFFLINE, m\<lparr>status := OFFLINE\<rparr>)))"
  using assms(2)
  by (simp add: validate_paid_type [OF assms(1)] validate_paid_def validate_online_def
      validate_cached_def split: sum.splits)

lemma validate_network_error_cases:
  assumes "dict_get (license_data m) ''license_type'' (JStr []) \<in> set [JStr ''pro'', JStr ''lifetime'']"
    and "post w (server_url m @ ''/license/validate'')
           [(''license_key'', dict_get (license_data m) ''license_key'' (JStr [])),
            (''device_id'', JStr (device_id m))] = Inl RequestException"
  shows "map_of (license_data m) ''expiry_date'' = None \<Longrightarrow> fst (validate w m) = Inr OFFLINE"
    and "map_of (license_data m) ''expiry_date'' = Some (JStr s) \<Longrightarrow>
           fromisoformat w s = Some (Naive t) \<Longrightarrow>
           fst (validate w m) = Inr (if t < now w then EXPIRED else OFFLINE)"
    and "map_of (license_data m) ''expiry_date'' = Some JNull \<Longrightarrow>
           validate w m = (Inl TypeError, m)"
  by (simp_all add: validate_network_error [OF assms] get_expiry_date_def)

lemma validate_server_error:
  assumes "dict_get (license_data m) ''license_type'' (JStr []) \<in> set [JStr ''pro'', JStr ''lifetime'']"
    and "post w (server_url m @ ''/license/validate'')
           [(''license_key'', dict_get (license_data m) ''license_key'' (JStr [])),
            (''device_id'', JStr (device_id m))] = Inr r"
    and "status_code r \<noteq> 200"
  shows "validate w m = (Inr OFFLINE, m\<lparr>status := OFFLINE\<rparr>)"
  using assms(2,3)
  by (simp add: validate_paid_type [OF assms(1)] validate_paid_def validate_online_def)

lemma activate_example:
  "activate_license (example_env server_lifetime) (example_manager example_trial_data) ''KEY-1''
     = (Inr (True, Activated),
        (example_manager example_lifetime_data)
          \<lparr>status := VALID, license_file := Some (json_dump example_lifetime_data)\<rparr>)"
  by (simp add: activate_license_def dict_update_def dict_get_def save_license_def
      server_lifetime_def example_lifetime_data_def example_defs)

text \<open>
  C4. The fallback to the cached expiry, for a license of type \<^verbatim>\<open>pro\<close> or \<^verbatim>\<open>lifetime\<close>.
  The lemmas above give the cases in which \<^verbatim>\<open>validate()\<close> does fall back: on a network
  error, OFFLINE without a cached \<^verbatim>\<open>expiry_date\<close>, and EXPIRED or OFFLINE by the date when
  the entry is the ISO text of a naive timestamp; on a status other than 200, OFFLINE.
  The theorem is the case that goes wrong. \<^verbatim>\<open>activate_license\<close> stores the server's
  \<^verbatim>\<open>expiry_date\<close> as it comes, so a lifetime license without an expiry date is cached with
  the entry \<^verbatim>\<open>None\<close>; \<^verbatim>\<open>get_expiry_date\<close> tests only that the key is there and hands the
  value to \<^verbatim>\<open>datetime.fromisoformat\<close>; on a network error \<^verbatim>\<open>validate()\<close> then raises
  TypeError and returns no status.
\<close>

theorem lifetime_license_offline_raises:
  "fst (activate_license (example_env server_lifetime) (example_manager example_trial_data)
          ''KEY-1'') = Inr (True, Activated)
   \<and> license_data (snd (activate_license (example_env server_lifetime)
          (example_manager example_trial_data) ''KEY-1'')) = example_lifetime_data
   \<and> map_of example_lifetime_data ''license_type'' = Some (JStr ''lifetime'')
   \<and> map_of example_lifetime_data ''expiry_date'' = Some JNull
   \<and> fst (validate (example_env server_down)
          (snd (activate_license (example_env server_lifetime)
             (example_manager example_trial_data) ''KEY-1''))) = Inl TypeError"
proof -
  let ?m = "(example_manager example_lifetime_data)
              \<lparr>status := VALID, license_file := Some (json_dump example_lifetime_data)\<rparr>"
  have t: "dict_get (license_data ?m) ''license_type'' (JStr [])
             \<in> set [JStr ''pro'', JStr ''lifetime'']"
    by (simp add: dict_get_def example_lifetime_data_def example_defs)
  have p: "post (example_env server_down) (server_url ?m @ ''/license/validate'')
           [(''license_key'', dict_get (license_data ?m) ''license_key'' (JStr [])),
            (''device_id'', JStr (device_id ?m))] = Inl RequestException"
    by (simp add: example_defs)
  have n: "map_of (license_data ?m) ''expiry_date'' = Some JNull"
    by (simp add: example_lifetime_data_def example_defs)
  have v: "validate (example_env server_down) ?m = (Inl TypeError, ?m)"
    by (rule validate_network_error_cases(3) [OF t p n])
  show ?thesis
    unfolding activate_example
    using v by (simp add: example_lifetime_data_def example_manager_def)
qed

subsection \<open>Starting a trial\<close>

lemma start_trial_offline_fields:
  "status (start_trial_offline w m email) = TRIAL"
  "license_data (start_trial_offline w m email) =
     [(''email'', JStr email),
      (''trial_start'', JStr (isoformat w (now w))),
      (''license_type'', JStr ''trial_offline'')]"
  "license_file (start_trial_offline w m email)
     = Some (json_dump (license_data (start_trial_offline w m email)))"
  by (simp_all add: start_trial_offline_def save_license_def)

lemma start_trial_cases:
  "start_trial w m email =
     (case trial_request w m email of
        Inl e \<Rightarrow>
          if e = RequestException then (Inr True, start_trial_offline w m email) else (Inl e, m)
      | Inr r \<Rightarrow>
          if status_code r = 200 then
            (case json_body r of
               Inl e \<Rightarrow>
                 if e = RequestException then (Inr True, start_trial_offline w m email)
                 else (Inl e, m)
             | Inr data \<Rightarrow>
                 (Inr True,
                  (save_license
                     (m\<lparr>license_data :=
                          [(''email'', JStr email),
                           (''trial_start'', JStr (isoformat w (now w))),
                           (''license_type'', JStr ''trial''),
                           (''server_response'', data)]\<rparr>))
                  \<lparr>status := TRIAL\<rparr>))
          else (Inr True, start_trial_offline w m email))"
  by (simp add: start_trial_def trial_request_def)

text \<open>
  C9. \<^verbatim>\<open>start_trial\<close> never fails. Whether the request raises a network exception, is
  answered with a status other than 200, or is answered with 200, \<^verbatim>\<open>start_trial(email)\<close>
  returns True, sets the status to TRIAL, and stores and writes to the license file data
  that holds the email and the current time as \<^verbatim>\<open>trial_start\<close>; the license type is
  \<^verbatim>\<open>trial\<close> when the server answered 200 with a body that parses, and \<^verbatim>\<open>trial_offline\<close>
  on every other path. The two hypotheses say that the request and the parsing of the body
  raise no exception other than a \<^verbatim>\<open>RequestException\<close>.
\<close>

theorem start_trial_never_fails:
  assumes "\<forall>e. trial_request w m email = Inl e \<longrightarrow> e = RequestException"
    and "\<forall>r e. trial_request w m email = Inr r \<and> status_code r = 200 \<and> json_body r = Inl e
           \<longrightarrow> e = RequestException"
  shows "fst (start_trial w m email) = Inr True
    \<and> status (snd (start_trial w m email)) = TRIAL
    \<and> map_of (license_data (snd (start_trial w m email))) ''email'' = Some (JStr email)
    \<and> map_of (license_data (snd (start_trial w m email))) ''trial_start''
         = Some (JStr (isoformat w (now w)))
    \<and> map_of (license_data (snd (start_trial w m email))) ''license_type''
         = Some (JStr (if \<exists>r data. trial_request w m email = Inr r \<and> status_code r = 200
                             \<and> json_body r = Inr data
                       then ''trial'' else ''trial_offline''))
    \<and> license_file (snd (start_trial w m email))
         = Some (json_dump (license_data (snd (start_trial w m email))))"
proof (cases "trial_request w m email")
  case (Inl e)
  with assms(1) have "e = RequestException" by blast
  with Inl show ?thesis
    by (simp add: start_trial_cases start_trial_offline_fields)
next
  case (Inr r)
  show ?thesis
  proof (cases "status_code r = 200")
    case False
    with Inr show ?thesis
      by (simp add: start_trial_cases start_trial_offline_fields)
  next
    case True
    show ?thesis
    proof (cases "json_body r")
      case (Inl e)
      with assms(2) Inr True have "e = RequestException" by blast
      with Inl Inr True show ?thesis
        by (simp add: start_trial_cases start_trial_offline_fields)
    next
      case (Inr data)
      with \<open>trial_request w m email = Inr r\<close> True show ?thesis
        by (simp add: start_trial_cases save_license_def)
    qed
  qed
qed


theorem start_trial_never_fails_witness:
  "trial_request (example_env server_down) (example_manager []) ''ann@example.org''
     = Inl RequestException
   \<and> fst (start_trial (example_env server_down) (example_manager []) ''ann@example.org'')
       = Inr True
   \<and> status (snd (start_trial (example_env server_down) (example_manager [])
         ''ann@example.org'')) = TRIAL
   \<and> map_of (license_data (snd (start_trial (example_env server_down) (example_manager [])
         ''ann@example.org''))) ''license_type'' = Some (JStr ''trial_offline'')
   \<and> trial_request (example_env server_error) (example_manager []) ''ann@example.org''
       = Inr \<lparr>status_code = 500,
              json_body = Inr (JDict [(''error'', JStr ''internal error'')])\<rparr>
   \<and> fst (start_trial (example_env server_error) (example_manager []) ''ann@example.org'')
       = Inr True
   \<and> map_of (license_data (snd (start_trial (example_env server_error) (example_manager [])
         ''ann@example.org''))) ''license_type'' = Some (JStr ''trial_offline'')
   \<and> trial_request (example_env server_trial) (example_manager []) ''ann@example.org''
       = Inr \<lparr>status_code = 200, json_body = Inr (JDict [(''trial'', JBool True)])\<rparr>
   \<and> fst (start_trial (example_env server_trial) (example_manager []) ''ann@example.org'')
       = Inr True
   \<and> map_of (license_data (snd (start_trial (example_env server_trial) (example_manager [])
         ''ann@example.org''))) ''license_type'' = Some (JStr ''trial'')
   \<and> map_of (license_data (snd (start_trial (example_env server_trial) (example_manager [])
         ''ann@example.org''))) ''trial_start'' = Some (JStr ''2026-11-04T12:00:00'')"
proof -
  let ?m = "example_manager []"
  let ?e = "''ann@example.org''"
  have d: "trial_request (example_env server_down) ?m ?e = Inl RequestException"
    by (simp add: trial_request_def example_defs)
  have e: "trial_request (example_env server_error) ?m ?e
             = Inr \<lparr>status_code = 500,
                    json_body = Inr (JDict [(''error'', JStr ''internal error'')])\<rparr>"
    by (simp add: trial_request_def server_error_def example_defs)
  have t: "trial_request (example_env server_trial) ?m ?e
             = Inr \<lparr>status_code = 200, json_body = Inr (JDict [(''trial'', JBool True)])\<rparr>"
    by (simp add: trial_request_def server_trial_def example_defs)
  have i: "isoformat (example_env server_trial) (now (example_env server_trial))
             = ''2026-11-04T12:00:00''"
    by (simp add: example_defs)
  have "fst (start_trial (example_env server_down) ?m ?e) = Inr True
      \<and> status (snd (start_trial (example_env server_down) ?m ?e)) = TRIAL
      \<and> map_of (license_data (snd (start_trial (example_env server_down) ?m ?e)))
           ''license_type'' = Some (JStr ''trial_offline'')"
    using start_trial_never_fails [of "example_env server_down" ?m ?e] by (simp add: d)
  moreover have "fst (start_trial (example_env server_error) ?m ?e) = Inr True
      \<and> map_of (license_data (snd (start_trial (example_env server_error) ?m ?e)))
           ''license_type'' = Some (JStr ''trial_offline'')"
    using start_trial_never_fails [of "example_env server_error" ?m ?e] by (simp add: e)
  moreover have "fst (start_trial (example_env server_trial) ?m ?e) = Inr True
      \<and> map_of (license_data (snd (start_trial (example_env server_trial) ?m ?e)))
           ''license_type'' = Some (JStr ''trial'')
      \<and> map_of (license_data (snd (start_trial (example_env server_trial) ?m ?e)))
           ''trial_start'' = Some (JStr ''2026-11-04T12:00:00'')"
    using start_trial_never_fails [of "example_env server_trial" ?m ?e] by (simp add: t i)
  ultimately show ?thesis
    using d e t by simp
qed

subsection \<open>Activating a license\<close>











subsection \<open>The license file\<close>






lemma load_license_unreadable:
  "license_file m = Some NotJson \<Longrightarrow> license_data (load_license m) = []"
  by (simp add: load_license_def)





section \<open>Properties of the bridge\<close>

lemma strip_blank:
  "(rev (dropWhile P (rev (dropWhile P s))) = []) = (\<forall>c \<in> set s. P c)"
proof
  assume "rev (dropWhile P (rev (dropWhile P s))) = []"
  then have e: "\<forall>c \<in> set (dropWhile P s). P c"
    by (simp add: dropWhile_eq_Nil_conv)
  have "dropWhile P s = []"
  proof (rule ccontr)
    assume n: "dropWhile P s \<noteq> []"
    then have "\<not> P (hd (dropWhile P s))"
      by (rule hd_dropWhile)
    moreover from n have "hd (dropWhile P s) \<in> set (dropWhile P s)"
      by simp
    ultimately show False
      using e by blast
  qed
  then show "\<forall>c \<in> set s. P c"
    by (simp add: dropWhile_eq_Nil_conv)
next
  assume "\<forall>c \<in> set s. P c"
  then have d: "dropWhile P s = []"
    by (simp add: dropWhile_eq_Nil_conv)
  show "rev (dropWhile P (rev (dropWhile P s))) = []"
    unfolding d by simp
qed

lemma unicode_strip_blank:
  "(unicode_strip s \<noteq> []) = (\<exists>c \<in> set s. \<not> unicode_isspace c)"
  by (simp add: unicode_strip_def strip_blank del: rev_is_Nil_conv)

lemma read_output_result:
  "read_output lines acc b =
     (acc @ concat lines,
      b\<lparr>bridge_calls := bridge_calls b @ (if on_output b then map OnOutput lines else [])\<rparr>)"
proof (induction lines arbitrary: acc b)
  case Nil
  show ?case by simp
next
  case (Cons line rest)
  show ?case
    by (simp add: Cons.IH bridge_call_def)
qed

text \<open>
  C3, as the code has it. For every query text the bridge calls, in this order:
  \<^verbatim>\<open>on_output\<close> with the processing notice; the launch of the command with the arguments
  \<^verbatim>\<open>[command, '--print', text]\<close>; \<^verbatim>\<open>on_output\<close> once for each line read from the standard
  output, in the order of the lines; and then, if the output, the exit and the standard error
  were read without an exception, \<^verbatim>\<open>on_response_complete\<close> with the concatenation of the lines
  exactly when the concatenation holds a character that is not whitespace. If the launch or a
  read raises, \<^verbatim>\<open>on_error\<close> is called instead and no completion follows. A callback that is
  not set is not called, and nothing else is called.
\<close>

theorem execute_query_calls:
  "bridge_calls (execute_query w b q) =
     bridge_calls b
       @ (if on_output b then [OnOutput processing_notice] else [])
       @ [Popen [command b, ustr ''--print'', q]]
       @ (case popen w [command b, ustr ''--print'', q] of
            Inl e \<Rightarrow> (if on_error b then [OnError e] else [])
          | Inr p \<Rightarrow>
              (if on_output b then map OnOutput (stdout_lines p) else [])
                @ (case read_failure p of
                     Some e \<Rightarrow> (if on_error b then [OnError e] else [])
                   | None \<Rightarrow>
                       (if on_response_complete b
                           \<and> (\<exists>c \<in> set (concat (stdout_lines p)). \<not> unicode_isspace c)
                        then [OnResponseComplete (concat (stdout_lines p))] else [])))"
proof (cases "popen w [command b, ustr ''--print'', q]")
  case (Inl e)
  then show ?thesis
    by (simp add: execute_query_def Let_def bridge_call_def report_error_def)
next
  case (Inr p)
  show ?thesis
  proof (cases "read_failure p")
    case (Some e)
    with Inr show ?thesis
      by (simp add: execute_query_def Let_def read_output_result bridge_call_def
          report_error_def)
  next
    case None
    have "(unicode_strip (concat (stdout_lines p)) \<noteq> [])
            = (\<exists>c \<in> set (concat (stdout_lines p)). \<not> unicode_isspace c)"
      by (rule unicode_strip_blank)
    with Inr None show ?thesis
      by (simp add: execute_query_def Let_def read_output_result bridge_call_def)
  qed
qed

text \<open>
  C3 as stated fails when a read fails midway: the child writes a line and then output that
  cannot be decoded. The line is passed to \<^verbatim>\<open>on_output\<close>, the error to \<^verbatim>\<open>on_error\<close>, and
  \<^verbatim>\<open>on_response_complete\<close> is not called although the streamed text is not blank.
\<close>

theorem read_failure_skips_completion:
  "popen example_cli [command example_bridge, ustr ''--print'', ustr ''garbled'']
     = Inr \<lparr>stdout_lines = [ustr ''ok'' @ [10]], stdout_error = Some UnicodeDecodeError,
            stderr_read = Inr []\<rparr>
   \<and> unicode_strip (concat [ustr ''ok'' @ [10]]) = ustr ''ok''
   \<and> bridge_calls (execute_query example_cli example_bridge (ustr ''garbled''))
       = [OnOutput processing_notice,
          Popen [ustr ''claude'', ustr ''--print'', ustr ''garbled''],
          OnOutput (ustr ''ok'' @ [10]),
          OnError UnicodeDecodeError]"
  by (simp add: execute_query_def Let_def read_output_result bridge_call_def report_error_def
      read_failure_def example_cli_def example_bridge_def ClaudeBridge_init_def ustr_def
      unicode_strip_def unicode_isspace_def)

theorem execute_query_calls_witness:
  "bridge_calls (execute_query example_cli example_bridge (ustr ''hello''))
     = [OnOutput processing_notice,
        Popen [ustr ''claude'', ustr ''--print'', ustr ''hello''],
        OnOutput [67, 122, 101, 347, 263, 10], OnOutput (ustr ''there''),
        OnResponseComplete ([67, 122, 101, 347, 263, 10] @ ustr ''there'')]
   \<and> bridge_calls (execute_query example_cli example_bridge (ustr ''blank''))
       = [OnOutput processing_notice,
          Popen [ustr ''claude'', ustr ''--print'', ustr ''blank''],
          OnOutput [32], OnOutput [10]]
   \<and> bridge_calls (execute_query example_cli example_bridge (ustr ''missing''))
       = [OnOutput processing_notice,
          Popen [ustr ''claude'', ustr ''--print'', ustr ''missing''],
          OnError FileNotFoundError]"
proof -
  have b: "bridge_calls example_bridge = []" "command example_bridge = ustr ''claude''"
    "on_output example_bridge" "on_response_complete example_bridge" "on_error example_bridge"
    by (simp_all add: example_bridge_def ClaudeBridge_init_def)
  have h: "popen example_cli [ustr ''claude'', ustr ''--print'', ustr ''hello'']
             = Inr \<lparr>stdout_lines = [[67, 122, 101, 347, 263, 10], ustr ''there''],
                    stdout_error = None, stderr_read = Inr []\<rparr>"
    by (simp add: example_cli_def)
  have k: "popen example_cli [ustr ''claude'', ustr ''--print'', ustr ''blank'']
             = Inr \<lparr>stdout_lines = [[32], [10]], stdout_error = None, stderr_read = Inr []\<rparr>"
    by (simp add: example_cli_def ustr_def)
  have m: "popen example_cli [ustr ''claude'', ustr ''--print'', ustr ''missing'']
             = Inl FileNotFoundError"
    by (simp add: example_cli_def ustr_def)
  have "bridge_calls (execute_query example_cli example_bridge (ustr ''hello''))
     = [OnOutput processing_notice,
        Popen [ustr ''claude'', ustr ''--print'', ustr ''hello''],
        OnOutput [67, 122, 101, 347, 263, 10], OnOutput (ustr ''there''),
        OnResponseComplete ([67, 122, 101, 347, 263, 10] @ ustr ''there'')]"
    using execute_query_calls [of example_cli example_bridge "ustr ''hello''"]
    by (simp add: b h read_failure_def unicode_isspace_def)
  moreover have "bridge_calls (execute_query example_cli example_bridge (ustr ''blank''))
       = [OnOutput processing_notice,
          Popen [ustr ''claude'', ustr ''--print'', ustr ''blank''],
          OnOutput [32], OnOutput [10]]"
    using execute_query_calls [of example_cli example_bridge "ustr ''blank''"]
    by (simp add: b k read_failure_def unicode_isspace_def)
  moreover have "bridge_calls (execute_query example_cli example_bridge (ustr ''missing''))
       = [OnOutput processing_notice,
          Popen [ustr ''claude'', ustr ''--print'', ustr ''missing''],
          OnError FileNotFoundError]"
    using execute_query_calls [of example_cli example_bridge "ustr ''missing''"]
    by (simp add: b m)
  ultimately show ?thesis
    by blast
qed

section \<open>Properties of the text-to-speech engine\<close>

lemma tts_set_state_state: "tts_state (tts_set_state st s) = st"
  by (simp add: tts_set_state_def tts_call_def Let_def)

text \<open>
  C6. The playback state machine moves only along its intended edges: \<^verbatim>\<open>pause()\<close> makes
  the state PAUSED when it is PLAYING and otherwise changes nothing at all; \<^verbatim>\<open>resume()\<close>
  makes the state PLAYING when it is PAUSED and otherwise changes nothing at all; and
  \<^verbatim>\<open>stop()\<close> leaves the state IDLE whatever state it is called in.
\<close>

theorem tts_transitions:
  "(tts_state s = TTS_PLAYING \<longrightarrow> tts_state (pause s) = TTS_PAUSED)
   \<and> (tts_state s \<noteq> TTS_PLAYING \<longrightarrow> pause s = s)
   \<and> (tts_state s = TTS_PAUSED \<longrightarrow> tts_state (resume s) = TTS_PLAYING)
   \<and> (tts_state s \<noteq> TTS_PAUSED \<longrightarrow> resume s = s)
   \<and> tts_state (stop s) = TTS_IDLE"
  by (simp add: pause_def resume_def stop_def tts_set_state_state)

theorem tts_transitions_witness:
  "tts_state (example_tts TTS_PLAYING) = TTS_PLAYING
   \<and> tts_state (pause (example_tts TTS_PLAYING)) = TTS_PAUSED
   \<and> tts_state (example_tts TTS_GENERATING) \<noteq> TTS_PLAYING
   \<and> pause (example_tts TTS_GENERATING) = example_tts TTS_GENERATING
   \<and> tts_state (example_tts TTS_PAUSED) = TTS_PAUSED
   \<and> tts_state (resume (example_tts TTS_PAUSED)) = TTS_PLAYING
   \<and> tts_state (example_tts TTS_IDLE) \<noteq> TTS_PAUSED
   \<and> resume (example_tts TTS_IDLE) = example_tts TTS_IDLE
   \<and> tts_state (stop (example_tts TTS_PAUSED)) = TTS_IDLE"
proof -
  have s: "tts_state (example_tts TTS_PLAYING) = TTS_PLAYING"
    "tts_state (example_tts TTS_GENERATING) \<noteq> TTS_PLAYING"
    "tts_state (example_tts TTS_PAUSED) = TTS_PAUSED"
    "tts_state (example_tts TTS_IDLE) \<noteq> TTS_PAUSED"
    by (simp_all add: example_tts_def)
  from s tts_transitions [of "example_tts TTS_PLAYING"]
    tts_transitions [of "example_tts TTS_GENERATING"]
    tts_transitions [of "example_tts TTS_PAUSED"]
    tts_transitions [of "example_tts TTS_IDLE"]
  show ?thesis by blast
qed

section \<open>Properties of the speech-to-text engine\<close>

lemma set_state_fields:
  "state (set_state st s) = st"
  "audio_buffer (set_state st s) = audio_buffer s"
  "api_key (set_state st s) = api_key s"
  "stt_calls (set_state st s) = stt_calls s @ (if on_state_changed s then [StateChanged st] else [])"
  by (simp_all add: set_state_def stt_call_def Let_def)

lemma transcribe_audio_final:
  "state (transcribe_audio w s) = STT_IDLE" "audio_buffer (transcribe_audio w s) = []"
  by (simp_all add: transcribe_audio_def set_state_fields Let_def)

lemma stop_recording_noop:
  "state s \<noteq> STT_RECORDING \<Longrightarrow> stop_recording s = (s, False)"
  by (simp add: stop_recording_def)

lemma transcribe_audio_calls:
  assumes "api_key s \<noteq> []" and "audio_buffer s \<noteq> []"
  shows "stt_calls (transcribe_audio w s) =
           stt_calls s @ [WavWritten (temp_path w) (wav_of s), Uploaded (upload_of w s)]
             @ (case groq_post w (upload_of w s) of
                  Inl e \<Rightarrow>
                    [WavRemoved (temp_path w)] @ (if stt_on_error s then [SttError e] else [])
                | Inr (code, body) \<Rightarrow>
                    if code = 200
                    then (if py_strip body \<noteq> [] \<and> on_transcription s
                          then [Transcription (py_strip body)] else [])
                         @ [WavRemoved (temp_path w)]
                    else [WavRemoved (temp_path w)]
                         @ (if stt_on_error s then [SttError (ApiError code body)] else []))
             @ (if on_state_changed s then [StateChanged STT_IDLE] else [])"
  using assms
  by (simp add: transcribe_audio_def transcribe_body_def np_concatenate_def save_wav_def
      send_to_groq_def set_state_def stt_call_def wav_of_def upload_of_def Let_def
      split: sum.splits prod.splits)

lemma transcribe_audio_no_key:
  assumes "api_key s = []"
  shows "stt_calls (transcribe_audio w s) =
           stt_calls s @ (if stt_on_error s then [SttError ValueError] else [])
             @ (if on_state_changed s then [StateChanged STT_IDLE] else [])"
  using assms
  by (simp add: transcribe_audio_def transcribe_body_def set_state_def stt_call_def Let_def)

lemma stop_recording_buffered:
  assumes "state s = STT_RECORDING" and "audio_buffer s \<noteq> []"
  shows "stop_recording s = (set_state STT_PROCESSING (s\<lparr>stop_recording_event := True\<rparr>), True)"
  using assms by (simp add: stop_recording_def Let_def)

lemma stop_recording_empty:
  assumes "state s = STT_RECORDING" and "audio_buffer s = []"
  shows "stop_recording s = (set_state STT_IDLE (s\<lparr>stop_recording_event := True\<rparr>), False)"
  using assms by (simp add: stop_recording_def Let_def)

lemma set_state_more_fields:
  "on_state_changed (set_state st s) = on_state_changed s"
  "stt_on_error (set_state st s) = stt_on_error s"
  "on_transcription (set_state st s) = on_transcription s"
  "wav_of (set_state st s) = wav_of s"
  "upload_of w (set_state st s) = upload_of w s"
  by (simp_all add: set_state_def stt_call_def Let_def wav_of_def upload_of_def)

lemma stop_event_fields:
  "wav_of (s\<lparr>stop_recording_event := b\<rparr>) = wav_of s"
  "upload_of w (s\<lparr>stop_recording_event := b\<rparr>) = upload_of w s"
  by (simp_all add: wav_of_def upload_of_def)

text \<open>
  C5, as the code has it. \<^verbatim>\<open>stop_recording()\<close> does nothing unless the state is RECORDING.
  When recording stops with a non-empty buffer the state becomes PROCESSING and the
  transcription is started; if an API key is set, the captured audio is written as a WAV
  file (the channels and sample rate of the engine, 16-bit samples, the blocks of the buffer
  in order) and that file is sent to the transcription endpoint with the Whisper model; if no
  API key is set, nothing is written or sent: the error callback is called and the state
  returns to IDLE. With an empty buffer the state returns directly to IDLE and nothing is
  sent. After the transcription, whatever its outcome, the state is IDLE and the buffer is
  empty.
\<close>

theorem stt_stop_recording:
  "(state s \<noteq> STT_RECORDING \<longrightarrow> stop_recording s = (s, False) \<and> stop_and_transcribe w s = s)
   \<and> (state s = STT_RECORDING \<and> audio_buffer s \<noteq> []
      \<longrightarrow> state (fst (stop_recording s)) = STT_PROCESSING \<and> snd (stop_recording s))
   \<and> (state s = STT_RECORDING \<and> audio_buffer s \<noteq> [] \<and> api_key s \<noteq> []
      \<longrightarrow> (\<exists>rest. stt_calls (stop_and_transcribe w s) =
             stt_calls s @ (if on_state_changed s then [StateChanged STT_PROCESSING] else [])
               @ [WavWritten (temp_path w) (wav_of s), Uploaded (upload_of w s)] @ rest))
   \<and> (state s = STT_RECORDING \<and> audio_buffer s \<noteq> [] \<and> api_key s = []
      \<longrightarrow> stt_calls (stop_and_transcribe w s) =
             stt_calls s @ (if on_state_changed s then [StateChanged STT_PROCESSING] else [])
               @ (if stt_on_error s then [SttError ValueError] else [])
               @ (if on_state_changed s then [StateChanged STT_IDLE] else []))
   \<and> (state s = STT_RECORDING \<and> audio_buffer s = []
      \<longrightarrow> state (fst (stop_recording s)) = STT_IDLE \<and> \<not> snd (stop_recording s)
          \<and> stt_calls (stop_and_transcribe w s) =
               stt_calls s @ (if on_state_changed s then [StateChanged STT_IDLE] else []))
   \<and> (state s = STT_RECORDING
      \<longrightarrow> state (stop_and_transcribe w s) = STT_IDLE
          \<and> audio_buffer (stop_and_transcribe w s) = [])
   \<and> state (transcribe_audio w s) = STT_IDLE
   \<and> audio_buffer (transcribe_audio w s) = []"
proof -
  have a: "state s \<noteq> STT_RECORDING
      \<longrightarrow> stop_recording s = (s, False) \<and> stop_and_transcribe w s = s"
    by (simp add: stop_recording_noop stop_and_transcribe_def)
  have b: "state s = STT_RECORDING \<and> audio_buffer s \<noteq> []
      \<longrightarrow> state (fst (stop_recording s)) = STT_PROCESSING \<and> snd (stop_recording s)"
    by (simp add: stop_recording_buffered set_state_fields)
  have c: "state s = STT_RECORDING \<and> audio_buffer s \<noteq> [] \<and> api_key s \<noteq> []
      \<longrightarrow> (\<exists>rest. stt_calls (stop_and_transcribe w s) =
             stt_calls s @ (if on_state_changed s then [StateChanged STT_PROCESSING] else [])
               @ [WavWritten (temp_path w) (wav_of s), Uploaded (upload_of w s)] @ rest)"
    by (simp add: stop_recording_buffered stop_and_transcribe_def transcribe_audio_calls
        set_state_fields set_state_more_fields stop_event_fields)
  have d: "state s = STT_RECORDING \<and> audio_buffer s \<noteq> [] \<and> api_key s = []
      \<longrightarrow> stt_calls (stop_and_transcribe w s) =
             stt_calls s @ (if on_state_changed s then [StateChanged STT_PROCESSING] else [])
               @ (if stt_on_error s then [SttError ValueError] else [])
               @ (if on_state_changed s then [StateChanged STT_IDLE] else [])"
    by (simp add: stop_recording_buffered stop_and_transcribe_def transcribe_audio_no_key
        set_state_fields set_state_more_fields)
  have e: "state s = STT_RECORDING \<and> audio_buffer s = []
      \<longrightarrow> state (fst (stop_recording s)) = STT_IDLE \<and> \<not> snd (stop_recording s)
          \<and> stt_calls (stop_and_transcribe w s) =
               stt_calls s @ (if on_state_changed s then [StateChanged STT_IDLE] else [])"
    by (simp add: stop_recording_empty stop_and_transcribe_def set_state_fields)
  have f: "state s = STT_RECORDING
      \<longrightarrow> state (stop_and_transcribe w s) = STT_IDLE
          \<and> audio_buffer (stop_and_transcribe w s) = []"
    by (cases "audio_buffer s = []")
      (simp_all add: stop_recording_empty stop_recording_buffered stop_and_transcribe_def
        set_state_fields transcribe_audio_final)
  from a b c d e f transcribe_audio_final [of w s] show ?thesis
    by blast
qed

text \<open>
  C5 as stated fails without an API key: recording stops with a non-empty buffer, the state
  becomes PROCESSING, and no file is written and nothing is uploaded.
\<close>

theorem stop_recording_without_key:
  "state (example_recording [] [[1, 2], [3]]) = STT_RECORDING
   \<and> audio_buffer (example_recording [] [[1, 2], [3]]) \<noteq> []
   \<and> state (fst (stop_recording (example_recording [] [[1, 2], [3]]))) = STT_PROCESSING
   \<and> stt_calls (stop_and_transcribe example_groq (example_recording [] [[1, 2], [3]]))
       = [StateChanged STT_PROCESSING, SttError ValueError, StateChanged STT_IDLE]
   \<and> filter is_transfer
         (stt_calls (stop_and_transcribe example_groq (example_recording [] [[1, 2], [3]])))
       = []"
  by (simp add: example_recording_def STTEngine_init_def example_groq_def
      stop_and_transcribe_def stop_recording_def transcribe_audio_def transcribe_body_def
      set_state_def stt_call_def Let_def)

theorem stt_stop_recording_witness:
  "state (STTEngine_init ''gsk_test'') \<noteq> STT_RECORDING
   \<and> stop_recording (STTEngine_init ''gsk_test'') = (STTEngine_init ''gsk_test'', False)
   \<and> state (example_recording ''gsk_test'' [[1, 2], [3]]) = STT_RECORDING
   \<and> audio_buffer (example_recording ''gsk_test'' [[1, 2], [3]]) \<noteq> []
   \<and> api_key (example_recording ''gsk_test'' [[1, 2], [3]]) \<noteq> []
   \<and> state (fst (stop_recording (example_recording ''gsk_test'' [[1, 2], [3]])))
       = STT_PROCESSING
   \<and> (\<exists>rest.
         stt_calls (stop_and_transcribe example_groq (example_recording ''gsk_test'' [[1, 2], [3]]))
         = [StateChanged STT_PROCESSING,
            WavWritten ''/tmp/claude_stt_1.wav''
              \<lparr>nchannels = 1, sampwidth = 2, framerate = 16000, frames = [1, 2, 3]\<rparr>,
            Uploaded
              \<lparr>upload_url = ''https://api.groq.com/openai/v1/audio/transcriptions'',
               authorization = ''Bearer gsk_test'', audio_path = ''/tmp/claude_stt_1.wav'',
               model = ''whisper-large-v3'', upload_language = ''pl'',
               response_format = ''text''\<rparr>] @ rest)
   \<and> state (stop_and_transcribe example_groq (example_recording ''gsk_test'' [[1, 2], [3]]))
       = STT_IDLE
   \<and> audio_buffer (stop_and_transcribe example_groq
         (example_recording ''gsk_test'' [[1, 2], [3]])) = []
   \<and> state (example_recording ''gsk_test'' []) = STT_RECORDING
   \<and> audio_buffer (example_recording ''gsk_test'' []) = []
   \<and> state (fst (stop_recording (example_recording ''gsk_test'' []))) = STT_IDLE
   \<and> stt_calls (stop_and_transcribe example_groq (example_recording ''gsk_test'' []))
       = [StateChanged STT_IDLE]"
proof -
  let ?i = "STTEngine_init ''gsk_test''"
  let ?r = "example_recording ''gsk_test'' [[1, 2], [3]]"
  let ?e = "example_recording ''gsk_test'' []"
  have i: "state ?i \<noteq> STT_RECORDING"
    by (simp add: STTEngine_init_def)
  have r: "state ?r = STT_RECORDING" "audio_buffer ?r \<noteq> []" "api_key ?r \<noteq> []"
    by (simp_all add: example_recording_def STTEngine_init_def)
  have e: "state ?e = STT_RECORDING" "audio_buffer ?e = []"
    by (simp_all add: example_recording_def STTEngine_init_def)
  have f: "stt_calls ?r = []" "on_state_changed ?r" "stt_calls ?e = []" "on_state_changed ?e"
    by (simp_all add: example_recording_def STTEngine_init_def)
  have w: "wav_of ?r = \<lparr>nchannels = 1, sampwidth = 2, framerate = 16000, frames = [1, 2, 3]\<rparr>"
    by (simp add: wav_of_def example_recording_def STTEngine_init_def)
  have u: "upload_of example_groq ?r =
             \<lparr>upload_url = ''https://api.groq.com/openai/v1/audio/transcriptions'',
              authorization = ''Bearer gsk_test'', audio_path = ''/tmp/claude_stt_1.wav'',
              model = ''whisper-large-v3'', upload_language = ''pl'',
              response_format = ''text''\<rparr>"
    by (simp add: upload_of_def example_recording_def STTEngine_init_def example_groq_def)
  have p: "temp_path example_groq = ''/tmp/claude_stt_1.wav''"
    by (simp add: example_groq_def)
  have "stop_recording ?i = (?i, False)"
    using stt_stop_recording [of ?i example_groq] i by blast
  moreover have "state (fst (stop_recording ?r)) = STT_PROCESSING"
    using stt_stop_recording [of ?r example_groq] r by blast
  moreover have "\<exists>rest. stt_calls (stop_and_transcribe example_groq ?r) =
             stt_calls ?r @ (if on_state_changed ?r then [StateChanged STT_PROCESSING] else [])
               @ [WavWritten (temp_path example_groq) (wav_of ?r),
                  Uploaded (upload_of example_groq ?r)] @ rest"
    using stt_stop_recording [of ?r example_groq] r by blast
  then have "\<exists>rest. stt_calls (stop_and_transcribe example_groq ?r)
         = [StateChanged STT_PROCESSING,
            WavWritten ''/tmp/claude_stt_1.wav''
              \<lparr>nchannels = 1, sampwidth = 2, framerate = 16000, frames = [1, 2, 3]\<rparr>,
            Uploaded
              \<lparr>upload_url = ''https://api.groq.com/openai/v1/audio/transcriptions'',
               authorization = ''Bearer gsk_test'', audio_path = ''/tmp/claude_stt_1.wav'',
               model = ''whisper-large-v3'', upload_language = ''pl'',
               response_format = ''text''\<rparr>] @ rest"
    by (simp add: w u p f)
  moreover have "state (stop_and_transcribe example_groq ?r) = STT_IDLE
      \<and> audio_buffer (stop_and_transcribe example_groq ?r) = []"
    using stt_stop_recording [of ?r example_groq] r by blast
  moreover have "state (fst (stop_recording ?e)) = STT_IDLE
      \<and> stt_calls (stop_and_transcribe example_groq ?e) =
               stt_calls ?e @ (if on_state_changed ?e then [StateChanged STT_IDLE] else [])"
    using stt_stop_recording [of ?e example_groq] e by blast
  then have "state (fst (stop_recording ?e)) = STT_IDLE
      \<and> stt_calls (stop_and_transcribe example_groq ?e) = [StateChanged STT_IDLE]"
    by (simp add: f)
  ultimately show ?thesis
    using i r e by blast
qed

section \<open>Properties of the background threads\<close>








end
